theory Spec2Isabelle
  imports Complex_Main "HOL-Library.Word"
begin

section \<open>Python values\<close>

text \<open>
  The OAuth broker of \<^verbatim>\<open>sample-auth-python\<close> passes JSON-like Python values between its
  handlers and its two token stores. A Python \<^verbatim>\<open>float\<close> is an IEEE double, modelled by
  its exact rational value (negative zero is identified with zero); a \<^verbatim>\<open>Decimal\<close> is
  modelled by its exact value as well. A Python \<^verbatim>\<open>str\<close> is a \<open>string\<close>; a character
  whose code is 128 or more stands for a non-ASCII code point. A \<^verbatim>\<open>dict\<close> with string
  keys is an association list in insertion order.
\<close>

datatype pyfloat = Finite rat | PosInf | NegInf | NaN

datatype decimal = DFinite rat | DPosInf | DNegInf | DNaN

datatype pyval =
    PNone
  | PBool bool
  | PInt int
  | PFloat pyfloat
  | PDecimal decimal
  | PStr string
  | PList "pyval list"
  | PDict "(string \<times> pyval) list"

text \<open>The exceptions the modelled code can raise; all are subclasses of \<^verbatim>\<open>Exception\<close>.
  \<open>LibraryError\<close> stands for any exception raised inside a library call
  (PyJWT, httpx, boto3).\<close>

datatype exn =
    KeyError string
  | TypeError
  | AttributeError
  | ValueError
  | OverflowError
  | UnicodeEncodeError
  | LibraryError string

subsection \<open>Floats and decimals\<close>

text \<open>Rounding to the nearest integer, ties to even.\<close>

definition round_half_even :: "rat \<Rightarrow> int" where
  "round_half_even x =
     (let f = \<lfloor>x\<rfloor>; r = x - of_int f
      in if r < 1 / 2 then f else if 1 / 2 < r then f + 1
         else if even f then f else f + 1)"

definition pow2 :: "int \<Rightarrow> rat" where
  "pow2 e = (if 0 \<le> e then 2 ^ nat e else 1 / 2 ^ nat (- e))"

definition pow10 :: "int \<Rightarrow> rat" where
  "pow10 e = (if 0 \<le> e then 10 ^ nat e else 1 / 10 ^ nat (- e))"

text \<open>\<open>ndigits b n\<close> is the number of digits of \<open>n > 0\<close> in base \<open>b\<close>.\<close>

function ndigits :: "int \<Rightarrow> int \<Rightarrow> int" where
  "ndigits b n = (if n \<le> 0 \<or> b < 2 then 0 else 1 + ndigits b (n div b))"
  by pat_completeness auto
termination
proof (relation "measure (\<lambda>(b, n). nat n)")
  show "wf (measure (\<lambda>(b, n). nat n))" by simp
next
  fix b n :: int
  assume "\<not> (n \<le> 0 \<or> b < 2)"
  then have "0 < n" "1 < b" by simp_all
  then have "n div b < n" by (rule int_div_less_self)
  moreover from \<open>0 < n\<close> \<open>1 < b\<close> have "0 \<le> n div b" by (simp add: pos_imp_zdiv_nonneg_iff)
  ultimately show "((b, n div b), (b, n)) \<in> measure (\<lambda>(b, n). nat n)" by simp
qed

declare ndigits.simps [simp del]

text \<open>\<open>ilog2 x\<close> is the integer \<open>e\<close> with \<open>2 ^ e \<le> x < 2 ^ (e + 1)\<close>, for \<open>x > 0\<close>;
  \<open>ilog10\<close> likewise for base 10.\<close>

definition ilog2 :: "rat \<Rightarrow> int" where
  "ilog2 x = (let (p, q) = quotient_of x; d = ndigits 2 p - ndigits 2 q
              in if pow2 d \<le> x then d else d - 1)"

definition ilog10 :: "rat \<Rightarrow> int" where
  "ilog10 x = (if 1 \<le> x then ndigits 10 \<lfloor>x\<rfloor> - 1
               else - ndigits 10 (\<lceil>1 / x\<rceil> - 1))"

text \<open>The double nearest to a rational (round to nearest, ties to even; 53 bits of
  mantissa, subnormals below \<open>2 ^ -1022\<close>, overflow to infinity).\<close>

definition round_double :: "rat \<Rightarrow> pyfloat" where
  "round_double x =
     (if x = 0 then Finite 0
      else let a = \<bar>x\<bar>; e = max (ilog2 a) (- 1022); ulp = pow2 (e - 52);
               m = round_half_even (a / ulp)
           in if 1024 \<le> e \<or> (e = 1023 \<and> m = 9007199254740992)
              then (if 0 < x then PosInf else NegInf)
              else Finite (sgn x * (of_int m * ulp)))"

text \<open>\<open>round_sig k x\<close> rounds \<open>x \<noteq> 0\<close> to \<open>k\<close> significant decimal digits.\<close>

definition round_sig :: "nat \<Rightarrow> rat \<Rightarrow> rat" where
  "round_sig k x =
     (let u = pow10 (ilog10 \<bar>x\<bar> - int k + 1) in of_int (round_half_even (x / u)) * u)"

text \<open>\<^verbatim>\<open>str(f)\<close> prints the shortest decimal literal that reads back as \<open>f\<close>
  (at most 17 significant digits); \<open>float_repr\<close> is the value of that literal.\<close>

definition float_repr :: "rat \<Rightarrow> rat" where
  "float_repr x =
     (if x = 0 then 0
      else case find (\<lambda>k. round_double (round_sig k x) = Finite x) [1..<17] of
             Some k \<Rightarrow> round_sig k x
           | None \<Rightarrow> round_sig 17 x)"

text \<open>\<^verbatim>\<open>Decimal(str(f))\<close> and \<^verbatim>\<open>float(d)\<close>.\<close>

fun Decimal_str :: "pyfloat \<Rightarrow> decimal" where
  "Decimal_str (Finite x) = DFinite (float_repr x)"
| "Decimal_str PosInf = DPosInf"
| "Decimal_str NegInf = DNegInf"
| "Decimal_str NaN = DNaN"

fun float_of_Decimal :: "decimal \<Rightarrow> pyfloat" where
  "float_of_Decimal (DFinite q) = round_double q"
| "float_of_Decimal DPosInf = PosInf"
| "float_of_Decimal DNegInf = NegInf"
| "float_of_Decimal DNaN = NaN"

subsection \<open>Truthiness, subscripts, membership\<close>

fun truthy :: "pyval \<Rightarrow> bool" where
  "truthy PNone = False"
| "truthy (PBool b) = b"
| "truthy (PInt n) = (n \<noteq> 0)"
| "truthy (PFloat f) = (f \<noteq> Finite 0)"
| "truthy (PDecimal d) = (d \<noteq> DFinite 0)"
| "truthy (PStr s) = (s \<noteq> [])"
| "truthy (PList xs) = (xs \<noteq> [])"
| "truthy (PDict kvs) = (kvs \<noteq> [])"

text \<open>A request parameter is \<^verbatim>\<open>None\<close> or a \<^verbatim>\<open>str\<close>.\<close>

fun param :: "string option \<Rightarrow> pyval" where
  "param None = PNone"
| "param (Some s) = PStr s"

text \<open>\<^verbatim>\<open>obj[key]\<close> for a string key.\<close>

fun getitem :: "pyval \<Rightarrow> string \<Rightarrow> exn + pyval" where
  "getitem (PDict kvs) k = (case map_of kvs k of Some v \<Rightarrow> Inr v | None \<Rightarrow> Inl (KeyError k))"
| "getitem _ k = Inl TypeError"

text \<open>\<^verbatim>\<open>obj.get(key, default)\<close>.\<close>

fun get_default :: "pyval \<Rightarrow> string \<Rightarrow> pyval \<Rightarrow> exn + pyval" where
  "get_default (PDict kvs) k d = (case map_of kvs k of Some v \<Rightarrow> Inr v | None \<Rightarrow> Inr d)"
| "get_default _ k d = Inl AttributeError"

text \<open>\<^verbatim>\<open>obj.keys()\<close>\<close>

fun keys :: "pyval \<Rightarrow> exn + string list" where
  "keys (PDict kvs) = Inr (map fst kvs)"
| "keys _ = Inl AttributeError"

text \<open>\<^verbatim>\<open>d[k] = v\<close> on a dict: the value is replaced in place, a new key goes last.\<close>

fun dict_set :: "(string \<times> pyval) list \<Rightarrow> string \<Rightarrow> pyval \<Rightarrow> (string \<times> pyval) list" where
  "dict_set [] k v = [(k, v)]"
| "dict_set ((k', v') # kvs) k v = (if k' = k then (k, v) # kvs else (k', v') # dict_set kvs k v)"

text \<open>\<^verbatim>\<open>s.startswith(p)\<close>.\<close>

definition startswith :: "string \<Rightarrow> string \<Rightarrow> bool" where
  "startswith s p = (take (length p) s = p)"

text \<open>\<^verbatim>\<open>p in s\<close> for two strings: \<open>p\<close> occurs in \<open>s\<close>.\<close>

definition is_substring :: "string \<Rightarrow> string \<Rightarrow> bool" where
  "is_substring p s = list_ex (\<lambda>i. take (length p) (drop i s) = p) [0..<Suc (length s)]"

text \<open>\<^verbatim>\<open>item in obj\<close> for a string \<open>item\<close>: a key of a dict, an element of a list, a
  substring of a string; the other values are not iterable.\<close>

fun contains :: "pyval \<Rightarrow> string \<Rightarrow> exn + bool" where
  "contains (PDict kvs) k = Inr (map_of kvs k \<noteq> None)"
| "contains (PList xs) k = Inr (PStr k \<in> set xs)"
| "contains (PStr s) k = Inr (is_substring k s)"
| "contains _ k = Inl TypeError"

text \<open>\<^verbatim>\<open>for x in obj\<close>: the elements of a list, the keys of a dict, the characters of a
  string.\<close>

fun iterate :: "pyval \<Rightarrow> exn + pyval list" where
  "iterate (PList xs) = Inr xs"
| "iterate (PDict kvs) = Inr (map (\<lambda>(k, v). PStr k) kvs)"
| "iterate (PStr s) = Inr (map (\<lambda>c. PStr [c]) s)"
| "iterate _ = Inl TypeError"

text \<open>\<^verbatim>\<open>f'{x}'\<close> of an optional string: \<^verbatim>\<open>None\<close> prints as \<^verbatim>\<open>None\<close>.\<close>

fun fstr :: "string option \<Rightarrow> string" where
  "fstr None = ''None''"
| "fstr (Some s) = s"

text \<open>Python's \<^verbatim>\<open>==\<close>: numbers compare by value across \<^verbatim>\<open>bool\<close>, \<^verbatim>\<open>int\<close>,
  \<^verbatim>\<open>float\<close> and \<^verbatim>\<open>Decimal\<close> (a NaN equals nothing), lists element by element, dicts
  key by key. (The identity shortcut of container comparison is not modelled.)\<close>

fun number :: "pyval \<Rightarrow> pyfloat option" where
  "number (PBool b) = Some (Finite (if b then 1 else 0))"
| "number (PInt n) = Some (Finite (of_int n))"
| "number (PFloat f) = Some f"
| "number (PDecimal d) =
     Some (case d of DFinite q \<Rightarrow> Finite q | DPosInf \<Rightarrow> PosInf | DNegInf \<Rightarrow> NegInf | DNaN \<Rightarrow> NaN)"
| "number _ = None"

fun py_eq :: "pyval \<Rightarrow> pyval \<Rightarrow> bool"
  and py_eq_list :: "pyval list \<Rightarrow> pyval list \<Rightarrow> bool"
  and py_eq_items :: "(string \<times> pyval) list \<Rightarrow> (string \<times> pyval) list \<Rightarrow> bool" where
  "py_eq (PList xs) b = (case b of PList ys \<Rightarrow> py_eq_list xs ys | _ \<Rightarrow> False)"
| "py_eq (PDict kvs) b =
     (case b of PDict kvs' \<Rightarrow> length kvs = length kvs' \<and> py_eq_items kvs kvs' | _ \<Rightarrow> False)"
| "py_eq (PStr s) b = (b = PStr s)"
| "py_eq PNone b = (b = PNone)"
| "py_eq (PBool x) b = (number b = Some (Finite (if x then 1 else 0)))"
| "py_eq (PInt n) b = (number b = Some (Finite (of_int n)))"
| "py_eq (PFloat f) b = (f \<noteq> NaN \<and> number b = Some f)"
| "py_eq (PDecimal d) b = (d \<noteq> DNaN \<and> number b = number (PDecimal d))"
| "py_eq_list [] ys = (ys = [])"
| "py_eq_list (x # xs) ys = (case ys of [] \<Rightarrow> False | y # ys' \<Rightarrow> py_eq x y \<and> py_eq_list xs ys')"
| "py_eq_items [] kvs' = True"
| "py_eq_items ((k, v) # kvs) kvs' =
     (case map_of kvs' k of None \<Rightarrow> False | Some w \<Rightarrow> py_eq v w \<and> py_eq_items kvs kvs')"

text \<open>\<^verbatim>\<open>int(t)\<close> of a finite float: truncation towards zero.\<close>

definition int_trunc :: "rat \<Rightarrow> int" where
  "int_trunc t = (if 0 \<le> t then \<lfloor>t\<rfloor> else \<lceil>t\<rceil>)"

text \<open>\<^verbatim>\<open>n + v\<close> for an \<^verbatim>\<open>int\<close> \<open>n\<close>. The sum with a \<^verbatim>\<open>float\<close> converts \<open>n\<close> first
  (\<^verbatim>\<open>OverflowError\<close> when int_trunc_1002 is too large) and rounds; the sum with a \<^verbatim>\<open>Decimal\<close> is
  rounded to the default context's 28 digits.\<close>

fun float_add :: "pyfloat \<Rightarrow> pyfloat \<Rightarrow> pyfloat" where
  "float_add (Finite x) (Finite y) = round_double (x + y)"
| "float_add NaN g = NaN"
| "float_add f NaN = NaN"
| "float_add PosInf g = (if g = NegInf then NaN else PosInf)"
| "float_add NegInf g = (if g = PosInf then NaN else NegInf)"
| "float_add (Finite x) g = g"

fun int_add :: "int \<Rightarrow> pyval \<Rightarrow> exn + pyval" where
  "int_add n (PInt m) = Inr (PInt (n + m))"
| "int_add n (PBool b) = Inr (PInt (n + (if b then 1 else 0)))"
| "int_add n (PFloat f) =
     (case round_double (of_int n) of
        Finite x \<Rightarrow> Inr (PFloat (float_add (Finite x) f))
      | _ \<Rightarrow> Inl OverflowError)"
| "int_add n (PDecimal d) =
     Inr (PDecimal (case d of
        DFinite q \<Rightarrow> DFinite (if of_int n + q = 0 then 0 else round_sig 28 (of_int n + q))
      | _ \<Rightarrow> d))"
| "int_add n _ = Inl TypeError"

subsection \<open>Strings and bytes\<close>

text \<open>\<^verbatim>\<open>s.encode('ascii')\<close> raises on a non-ASCII character; \<^verbatim>\<open>s.encode()\<close> is UTF-8.\<close>

definition encode_ascii :: "string \<Rightarrow> exn + 8 word list" where
  "encode_ascii s =
     (if list_all (\<lambda>c. (of_char c :: nat) < 128) s then Inr (map of_char s)
      else Inl UnicodeEncodeError)"

definition encode_utf8 :: "string \<Rightarrow> 8 word list" where
  "encode_utf8 s =
     concat (map (\<lambda>c. let n = (of_char c :: nat)
                       in if n < 128 then [of_nat n]
                          else [of_nat (192 + n div 64), of_nat (128 + n mod 64)]) s)"

text \<open>\<^verbatim>\<open>s.rstrip('=')\<close>\<close>

definition rstrip_eq :: "string \<Rightarrow> string" where
  "rstrip_eq s = rev (dropWhile (\<lambda>c. c = CHR ''='') (rev s))"

text \<open>\<^verbatim>\<open>base64.b64encode\<close> and \<^verbatim>\<open>base64.urlsafe_b64encode\<close>, decoded to a string.\<close>

definition b64_alphabet :: string where
  "b64_alphabet = ''ABCDEFGHIJKLMNOPQRSTUVWXYZabcdefghijklmnopqrstuvwxyz0123456789+/''"

definition urlsafe_alphabet :: string where
  "urlsafe_alphabet = ''ABCDEFGHIJKLMNOPQRSTUVWXYZabcdefghijklmnopqrstuvwxyz0123456789-_''"

fun b64_groups :: "string \<Rightarrow> nat list \<Rightarrow> string" where
  "b64_groups al (a # b # c # bs) =
     (let n = a * 65536 + b * 256 + c
      in [al ! (n div 262144), al ! (n div 4096 mod 64), al ! (n div 64 mod 64), al ! (n mod 64)])
     @ b64_groups al bs"
| "b64_groups al [a, b] =
     (let n = a * 65536 + b * 256
      in [al ! (n div 262144), al ! (n div 4096 mod 64), al ! (n div 64 mod 64), CHR ''=''])"
| "b64_groups al [a] =
     (let n = a * 65536
      in [al ! (n div 262144), al ! (n div 4096 mod 64), CHR ''='', CHR ''=''])"
| "b64_groups al [] = []"

definition b64encode :: "8 word list \<Rightarrow> string" where
  "b64encode bs = b64_groups b64_alphabet (map unat bs)"

definition urlsafe_b64encode :: "8 word list \<Rightarrow> string" where
  "urlsafe_b64encode bs = b64_groups urlsafe_alphabet (map unat bs)"

section \<open>The volatile store: \<^verbatim>\<open>LocalTokenStore\<close>\<close>

text \<open>Each of the four dicts maps an id to an entry
  \<^verbatim>\<open>{'data': ..., 'created_at': ..., 'expiration': ...}\<close>; client entries have no
  \<^verbatim>\<open>'expiration'\<close>. Every operation reads the clock once: \<open>now\<close> is
  \<^verbatim>\<open>int(time.time())\<close>.\<close>

record entry =
  data :: pyval
  created_at :: int
  expiration :: "int option"

record LocalTokenStore =
  clients :: "string \<rightharpoonup> entry"
  sessions :: "string \<rightharpoonup> entry"
  tokens :: "string \<rightharpoonup> entry"
  refresh_tokens :: "string \<rightharpoonup> entry"

definition Local_init :: LocalTokenStore where
  "Local_init = \<lparr>clients = Map.empty, sessions = Map.empty, tokens = Map.empty,
                  refresh_tokens = Map.empty\<rparr>"

text \<open>\<^verbatim>\<open>entry.get('expiration') and entry['expiration'] < int(time.time())\<close>\<close>

definition expired :: "entry \<Rightarrow> int \<Rightarrow> bool" where
  "expired e now = (case expiration e of None \<Rightarrow> False | Some x \<Rightarrow> x \<noteq> 0 \<and> x < now)"

definition Local_store_client :: "int \<Rightarrow> LocalTokenStore \<Rightarrow> string \<Rightarrow> pyval \<Rightarrow> LocalTokenStore" where
  "Local_store_client now s client_id client_data =
     s\<lparr>clients := (clients s)(client_id \<mapsto>
          \<lparr>data = client_data, created_at = now, expiration = None\<rparr>)\<rparr>"

definition Local_get_client :: "LocalTokenStore \<Rightarrow> string \<Rightarrow> pyval" where
  "Local_get_client s client_id =
     (case clients s client_id of Some e \<Rightarrow> data e | None \<Rightarrow> PNone)"

definition Local_delete_client :: "LocalTokenStore \<Rightarrow> string \<Rightarrow> LocalTokenStore" where
  "Local_delete_client s client_id = s\<lparr>clients := (clients s)(client_id := None)\<rparr>"

definition Local_store_session :: "int \<Rightarrow> LocalTokenStore \<Rightarrow> string \<Rightarrow> pyval \<Rightarrow> LocalTokenStore" where
  "Local_store_session now s session_id session_data =
     s\<lparr>sessions := (sessions s)(session_id \<mapsto>
          \<lparr>data = session_data, created_at = now, expiration = Some (now + 24 * 60 * 60)\<rparr>)\<rparr>"

definition Local_delete_session :: "LocalTokenStore \<Rightarrow> string \<Rightarrow> LocalTokenStore" where
  "Local_delete_session s session_id = s\<lparr>sessions := (sessions s)(session_id := None)\<rparr>"

definition Local_get_session :: "int \<Rightarrow> LocalTokenStore \<Rightarrow> string \<Rightarrow> pyval \<times> LocalTokenStore" where
  "Local_get_session now s session_id =
     (case sessions s session_id of
        Some e \<Rightarrow>
          if expired e now then (PNone, s\<lparr>sessions := (sessions s)(session_id := None)\<rparr>)
          else (data e, s)
      | None \<Rightarrow> (PNone, s))"

definition Local_store_token_mapping :: "int \<Rightarrow> LocalTokenStore \<Rightarrow> string \<Rightarrow> pyval \<Rightarrow> LocalTokenStore" where
  "Local_store_token_mapping now s auth_code token_data =
     s\<lparr>tokens := (tokens s)(auth_code \<mapsto>
          \<lparr>data = token_data, created_at = now, expiration = Some (now + 10 * 60)\<rparr>)\<rparr>"

definition Local_delete_token_mapping :: "LocalTokenStore \<Rightarrow> string \<Rightarrow> LocalTokenStore" where
  "Local_delete_token_mapping s auth_code = s\<lparr>tokens := (tokens s)(auth_code := None)\<rparr>"

definition Local_get_token_mapping :: "int \<Rightarrow> LocalTokenStore \<Rightarrow> string \<Rightarrow> pyval \<times> LocalTokenStore" where
  "Local_get_token_mapping now s auth_code =
     (case tokens s auth_code of
        Some e \<Rightarrow>
          if expired e now then (PNone, s\<lparr>tokens := (tokens s)(auth_code := None)\<rparr>)
          else (data e, s)
      | None \<Rightarrow> (PNone, s))"

definition Local_store_refresh_token :: "int \<Rightarrow> LocalTokenStore \<Rightarrow> string \<Rightarrow> pyval \<Rightarrow> LocalTokenStore" where
  "Local_store_refresh_token now s refresh_token token_data =
     s\<lparr>refresh_tokens := (refresh_tokens s)(refresh_token \<mapsto>
          \<lparr>data = token_data, created_at = now, expiration = Some (now + 30 * 24 * 60 * 60)\<rparr>)\<rparr>"

definition Local_update_refresh_token :: "int \<Rightarrow> LocalTokenStore \<Rightarrow> string \<Rightarrow> pyval \<Rightarrow> LocalTokenStore" where
  "Local_update_refresh_token now s refresh_token token_data =
     s\<lparr>refresh_tokens := (refresh_tokens s)(refresh_token \<mapsto>
          \<lparr>data = token_data, created_at = now, expiration = Some (now + 30 * 24 * 60 * 60)\<rparr>)\<rparr>"

definition Local_delete_refresh_token :: "LocalTokenStore \<Rightarrow> string \<Rightarrow> LocalTokenStore" where
  "Local_delete_refresh_token s refresh_token =
     s\<lparr>refresh_tokens := (refresh_tokens s)(refresh_token := None)\<rparr>"

definition Local_get_refresh_token :: "int \<Rightarrow> LocalTokenStore \<Rightarrow> string \<Rightarrow> pyval \<times> LocalTokenStore" where
  "Local_get_refresh_token now s refresh_token =
     (case refresh_tokens s refresh_token of
        Some e \<Rightarrow>
          if expired e now
          then (PNone, s\<lparr>refresh_tokens := (refresh_tokens s)(refresh_token := None)\<rparr>)
          else (data e, s)
      | None \<Rightarrow> (PNone, s))"

text \<open>\<^verbatim>\<open>LocalTokenStore._convert_floats\<close> and \<^verbatim>\<open>convert_decimals\<close> return their
  argument.\<close>

definition Local_convert_floats :: "pyval \<Rightarrow> pyval" where
  "Local_convert_floats obj = obj"

definition Local_convert_decimals :: "pyval \<Rightarrow> pyval" where
  "Local_convert_decimals obj = obj"

section \<open>The durable store: \<^verbatim>\<open>DynamoDBTokenStore\<close>\<close>

text \<open>\<^verbatim>\<open>_convert_floats\<close> (applied on every write) and \<^verbatim>\<open>convert_decimals\<close>
  (applied on every read), with the order of their \<^verbatim>\<open>isinstance\<close> tests.\<close>

fun convert_floats :: "pyval \<Rightarrow> pyval" where
  "convert_floats (PFloat f) = PDecimal (Decimal_str f)"
| "convert_floats (PDict kvs) = PDict (map (\<lambda>(k, v). (k, convert_floats v)) kvs)"
| "convert_floats (PList xs) = PList (map convert_floats xs)"
| "convert_floats obj = obj"

fun convert_decimals :: "pyval \<Rightarrow> pyval" where
  "convert_decimals (PDecimal d) = PFloat (float_of_Decimal d)"
| "convert_decimals (PDict kvs) = PDict (map (\<lambda>(k, v). (k, convert_decimals v)) kvs)"
| "convert_decimals (PList xs) = PList (map convert_decimals xs)"
| "convert_decimals obj = obj"

text \<open>
  The table is a boto3 \<^verbatim>\<open>Table\<close> resource keyed by \<^verbatim>\<open>(PK, SK)\<close>. boto3 refuses to
  write a \<^verbatim>\<open>float\<close> or a non-finite \<^verbatim>\<open>Decimal\<close> (\<^verbatim>\<open>TypeError\<close>), stores
  \<^verbatim>\<open>int\<close> and \<^verbatim>\<open>Decimal\<close> as the DynamoDB number type, and returns every number as
  a \<^verbatim>\<open>Decimal\<close>: \<open>ddb_value\<close> is what \<^verbatim>\<open>get_item\<close> returns for an attribute
  written as its argument. The table's limit of 38 significant digits is not modelled.
  The table prunes expired items on its own schedule: no operation of the store does.
\<close>

fun ddb_storable :: "pyval \<Rightarrow> bool" where
  "ddb_storable (PFloat f) = False"
| "ddb_storable (PDecimal d) = (case d of DFinite q \<Rightarrow> True | _ \<Rightarrow> False)"
| "ddb_storable (PDict kvs) = list_all (\<lambda>(k, v). ddb_storable v) kvs"
| "ddb_storable (PList xs) = list_all ddb_storable xs"
| "ddb_storable obj = True"

fun ddb_value :: "pyval \<Rightarrow> pyval" where
  "ddb_value (PInt n) = PDecimal (DFinite (of_int n))"
| "ddb_value (PDict kvs) = PDict (map (\<lambda>(k, v). (k, ddb_value v)) kvs)"
| "ddb_value (PList xs) = PList (map ddb_value xs)"
| "ddb_value obj = obj"

type_synonym Table = "string \<times> string \<rightharpoonup> entry"

record DynamoDBTokenStore =
  table_name :: string
  table :: Table

definition put_item :: "DynamoDBTokenStore \<Rightarrow> string \<times> string \<Rightarrow> entry \<Rightarrow> exn + DynamoDBTokenStore" where
  "put_item s key item =
     (if ddb_storable (data item)
      then Inr (s\<lparr>table := (table s)(key \<mapsto> item\<lparr>data := ddb_value (data item)\<rparr>)\<rparr>)
      else Inl TypeError)"

text \<open>\<^verbatim>\<open>(await self._get_item(key)).get('Item', {}).get('data')\<close>\<close>

definition get_item_data :: "DynamoDBTokenStore \<Rightarrow> string \<times> string \<Rightarrow> pyval" where
  "get_item_data s key = (case table s key of Some item \<Rightarrow> data item | None \<Rightarrow> PNone)"

definition delete_item :: "DynamoDBTokenStore \<Rightarrow> string \<times> string \<Rightarrow> DynamoDBTokenStore" where
  "delete_item s key = s\<lparr>table := (table s)(key := None)\<rparr>"

text \<open>\<^verbatim>\<open>return self.convert_decimals(x) if x else None\<close>\<close>

definition decimals_or_None :: "pyval \<Rightarrow> pyval" where
  "decimals_or_None x = (if truthy x then convert_decimals x else PNone)"

definition Dynamo_store_client :: "int \<Rightarrow> DynamoDBTokenStore \<Rightarrow> string \<Rightarrow> pyval \<Rightarrow> exn + DynamoDBTokenStore" where
  "Dynamo_store_client now s client_id client_data =
     put_item s (''CLIENT#'' @ client_id, ''CLIENT'')
       \<lparr>data = convert_floats client_data, created_at = now, expiration = None\<rparr>"

definition Dynamo_get_client :: "DynamoDBTokenStore \<Rightarrow> string \<Rightarrow> pyval" where
  "Dynamo_get_client s client_id =
     decimals_or_None (get_item_data s (''CLIENT#'' @ client_id, ''CLIENT''))"

definition Dynamo_delete_client :: "DynamoDBTokenStore \<Rightarrow> string \<Rightarrow> DynamoDBTokenStore" where
  "Dynamo_delete_client s client_id = delete_item s (''CLIENT#'' @ client_id, ''CLIENT'')"

definition Dynamo_store_session :: "int \<Rightarrow> DynamoDBTokenStore \<Rightarrow> string \<Rightarrow> pyval \<Rightarrow> exn + DynamoDBTokenStore" where
  "Dynamo_store_session now s session_id session_data =
     put_item s (''SESSION#'' @ session_id, ''SESSION'')
       \<lparr>data = convert_floats session_data, created_at = now,
        expiration = Some (now + 24 * 60 * 60)\<rparr>"

definition Dynamo_get_session :: "DynamoDBTokenStore \<Rightarrow> string \<Rightarrow> pyval" where
  "Dynamo_get_session s session_id =
     decimals_or_None (get_item_data s (''SESSION#'' @ session_id, ''SESSION''))"

definition Dynamo_delete_session :: "DynamoDBTokenStore \<Rightarrow> string \<Rightarrow> DynamoDBTokenStore" where
  "Dynamo_delete_session s session_id = delete_item s (''SESSION#'' @ session_id, ''SESSION'')"

definition Dynamo_store_token_mapping :: "int \<Rightarrow> DynamoDBTokenStore \<Rightarrow> string \<Rightarrow> pyval \<Rightarrow> exn + DynamoDBTokenStore" where
  "Dynamo_store_token_mapping now s auth_code token_data =
     put_item s (''TOKEN#'' @ auth_code, ''TOKEN'')
       \<lparr>data = convert_floats token_data, created_at = now,
        expiration = Some (now + 10 * 60)\<rparr>"

definition Dynamo_get_token_mapping :: "DynamoDBTokenStore \<Rightarrow> string \<Rightarrow> pyval" where
  "Dynamo_get_token_mapping s auth_code =
     decimals_or_None (get_item_data s (''TOKEN#'' @ auth_code, ''TOKEN''))"

definition Dynamo_delete_token_mapping :: "DynamoDBTokenStore \<Rightarrow> string \<Rightarrow> DynamoDBTokenStore" where
  "Dynamo_delete_token_mapping s auth_code = delete_item s (''TOKEN#'' @ auth_code, ''TOKEN'')"

definition Dynamo_store_refresh_token :: "int \<Rightarrow> DynamoDBTokenStore \<Rightarrow> string \<Rightarrow> pyval \<Rightarrow> exn + DynamoDBTokenStore" where
  "Dynamo_store_refresh_token now s refresh_token token_data =
     put_item s (''REFRESH#'' @ refresh_token, ''REFRESH'')
       \<lparr>data = convert_floats token_data, created_at = now,
        expiration = Some (now + 30 * 24 * 60 * 60)\<rparr>"

definition Dynamo_get_refresh_token :: "DynamoDBTokenStore \<Rightarrow> string \<Rightarrow> pyval" where
  "Dynamo_get_refresh_token s refresh_token =
     decimals_or_None (get_item_data s (''REFRESH#'' @ refresh_token, ''REFRESH''))"

definition Dynamo_update_refresh_token :: "int \<Rightarrow> DynamoDBTokenStore \<Rightarrow> string \<Rightarrow> pyval \<Rightarrow> exn + DynamoDBTokenStore" where
  "Dynamo_update_refresh_token now s refresh_token token_data =
     put_item s (''REFRESH#'' @ refresh_token, ''REFRESH'')
       \<lparr>data = convert_floats token_data, created_at = now,
        expiration = Some (now + 30 * 24 * 60 * 60)\<rparr>"

definition Dynamo_delete_refresh_token :: "DynamoDBTokenStore \<Rightarrow> string \<Rightarrow> DynamoDBTokenStore" where
  "Dynamo_delete_refresh_token s refresh_token =
     delete_item s (''REFRESH#'' @ refresh_token, ''REFRESH'')"

section \<open>The store the handlers use, and its factory\<close>

text \<open>\<^verbatim>\<open>token_store = get_token_store()\<close> is one of the two stores; a handler's call
  \<^verbatim>\<open>token_store.m(...)\<close> is the method \<open>m\<close> of that store.\<close>

datatype token_store = Local LocalTokenStore | Dynamo DynamoDBTokenStore

type_synonym environ = "string \<rightharpoonup> string"

text \<open>\<^verbatim>\<open>DynamoDBTokenStore.__init__\<close>. The argument \<open>boto3_Table region name\<close> stands for
  \<^verbatim>\<open>boto3.resource('dynamodb', region_name=region).Table(name)\<close>, which returns the
  table or raises.\<close>

definition Dynamo_init :: "(string \<Rightarrow> string \<Rightarrow> exn + Table) \<Rightarrow> environ \<Rightarrow> exn + DynamoDBTokenStore" where
  "Dynamo_init boto3_Table env =
     (case env ''TOKEN_TABLE_NAME'' of
        None \<Rightarrow> Inl ValueError
      | Some name \<Rightarrow>
          if name = [] then Inl ValueError
          else (case boto3_Table (case env ''AWS_REGION'' of Some r \<Rightarrow> r | None \<Rightarrow> ''us-west-2'') name of
                  Inl e \<Rightarrow> Inl e
                | Inr t \<Rightarrow> Inr \<lparr>table_name = name, table = t\<rparr>))"

definition get_token_store :: "(string \<Rightarrow> string \<Rightarrow> exn + Table) \<Rightarrow> environ \<Rightarrow> token_store" where
  "get_token_store boto3_Table env =
     (case env ''TOKEN_TABLE_NAME'' of
        Some name \<Rightarrow>
          if name \<noteq> [] then
            (case Dynamo_init boto3_Table env of
               Inr token_store \<Rightarrow> Dynamo token_store
             | Inl e \<Rightarrow> Local Local_init)
          else Local Local_init
      | None \<Rightarrow> Local Local_init)"

fun store_client :: "int \<Rightarrow> token_store \<Rightarrow> string \<Rightarrow> pyval \<Rightarrow> exn + token_store" where
  "store_client now (Local s) k v = Inr (Local (Local_store_client now s k v))"
| "store_client now (Dynamo s) k v = map_sum id Dynamo (Dynamo_store_client now s k v)"

fun get_client :: "token_store \<Rightarrow> string \<Rightarrow> pyval" where
  "get_client (Local s) k = Local_get_client s k"
| "get_client (Dynamo s) k = Dynamo_get_client s k"

fun store_session :: "int \<Rightarrow> token_store \<Rightarrow> string \<Rightarrow> pyval \<Rightarrow> exn + token_store" where
  "store_session now (Local s) k v = Inr (Local (Local_store_session now s k v))"
| "store_session now (Dynamo s) k v = map_sum id Dynamo (Dynamo_store_session now s k v)"

fun get_session :: "int \<Rightarrow> token_store \<Rightarrow> string \<Rightarrow> pyval \<times> token_store" where
  "get_session now (Local s) k = map_prod id Local (Local_get_session now s k)"
| "get_session now (Dynamo s) k = (Dynamo_get_session s k, Dynamo s)"

fun store_token_mapping :: "int \<Rightarrow> token_store \<Rightarrow> string \<Rightarrow> pyval \<Rightarrow> exn + token_store" where
  "store_token_mapping now (Local s) k v = Inr (Local (Local_store_token_mapping now s k v))"
| "store_token_mapping now (Dynamo s) k v = map_sum id Dynamo (Dynamo_store_token_mapping now s k v)"

fun get_token_mapping :: "int \<Rightarrow> token_store \<Rightarrow> string \<Rightarrow> pyval \<times> token_store" where
  "get_token_mapping now (Local s) k = map_prod id Local (Local_get_token_mapping now s k)"
| "get_token_mapping now (Dynamo s) k = (Dynamo_get_token_mapping s k, Dynamo s)"

fun delete_token_mapping :: "token_store \<Rightarrow> string \<Rightarrow> token_store" where
  "delete_token_mapping (Local s) k = Local (Local_delete_token_mapping s k)"
| "delete_token_mapping (Dynamo s) k = Dynamo (Dynamo_delete_token_mapping s k)"

fun store_refresh_token :: "int \<Rightarrow> token_store \<Rightarrow> string \<Rightarrow> pyval \<Rightarrow> exn + token_store" where
  "store_refresh_token now (Local s) k v = Inr (Local (Local_store_refresh_token now s k v))"
| "store_refresh_token now (Dynamo s) k v = map_sum id Dynamo (Dynamo_store_refresh_token now s k v)"

fun get_refresh_token :: "int \<Rightarrow> token_store \<Rightarrow> string \<Rightarrow> pyval \<times> token_store" where
  "get_refresh_token now (Local s) k = map_prod id Local (Local_get_refresh_token now s k)"
| "get_refresh_token now (Dynamo s) k = (Dynamo_get_refresh_token s k, Dynamo s)"

fun update_refresh_token :: "int \<Rightarrow> token_store \<Rightarrow> string \<Rightarrow> pyval \<Rightarrow> exn + token_store" where
  "update_refresh_token now (Local s) k v = Inr (Local (Local_update_refresh_token now s k v))"
| "update_refresh_token now (Dynamo s) k v = map_sum id Dynamo (Dynamo_update_refresh_token now s k v)"

section \<open>The OAuth handlers of \<^verbatim>\<open>oauth_cognito.py\<close>\<close>

text \<open>
  What the handlers take from libraries and from the network is a parameter of the model:
  the hash function, PyJWT, the HTTP client, the parameter store and \<^verbatim>\<open>str(e)\<close> of an
  exception. Each returns its result or the exception int_trunc_1002 raises. The identifiers that
  \<^verbatim>\<open>uuid.uuid4()\<close> draws and the clock reading \<^verbatim>\<open>time.time()\<close> (one per request) are
  arguments of each handler.
\<close>

datatype jwtkey = HMACKey string | RSAKey pyval

record decode_args =
  algorithms :: "string list"
  verify_exp :: bool
  audience :: "string option"
  issuer :: "string option"

record pylib =
  sha256 :: "8 word list \<Rightarrow> 8 word list"
  str_exn :: "exn \<Rightarrow> string"
  ssm_get_parameter :: "string \<Rightarrow> exn + pyval"
  httpx_get_json :: "string \<Rightarrow> exn + pyval"
  httpx_post_json :: "string \<Rightarrow> pyval \<Rightarrow> pyval \<Rightarrow> exn + pyval"
  urlencode :: "pyval \<Rightarrow> exn + string"
  jwt_encode :: "pyval \<Rightarrow> string \<Rightarrow> string \<Rightarrow> pyval \<Rightarrow> exn + string"
  jwt_get_unverified_header :: "string \<Rightarrow> exn + pyval"
  jwt_decode :: "string \<Rightarrow> jwtkey \<Rightarrow> decode_args \<Rightarrow> exn + pyval"
  from_jwk :: "pyval \<Rightarrow> exn + jwtkey"

datatype response = JSONResponse pyval nat | RedirectResponse string nat

definition error_response :: "string \<Rightarrow> string \<Rightarrow> nat \<Rightarrow> response" where
  "error_response err descr status =
     JSONResponse (PDict [(''error'', PStr err), (''error_description'', PStr descr)]) status"

text \<open>\<^verbatim>\<open>os.environ.get(name, default)\<close>\<close>

definition environ_get :: "environ \<Rightarrow> string \<Rightarrow> string \<Rightarrow> string" where
  "environ_get env name d = (case env name of Some v \<Rightarrow> v | None \<Rightarrow> d)"

text \<open>\<^verbatim>\<open>get_ssm_parameter\<close> sets \<^verbatim>\<open>MCP_SERVER_BASE_URL\<close> from the parameter store when
  int_trunc_1002 is unset or empty; every failure leaves the environment as int_trunc_1002 is.\<close>

definition get_ssm_parameter :: "pylib \<Rightarrow> environ \<Rightarrow> environ" where
  "get_ssm_parameter L env =
     (if truthy (param (env ''MCP_SERVER_BASE_URL'')) then env
      else case env ''MCP_SERVER_BASE_URL_PARAMETER_NAME'' of
             None \<Rightarrow> env
           | Some param_name \<Rightarrow>
               if param_name = [] then env
               else (case ssm_get_parameter L param_name of
                       Inl e \<Rightarrow> env
                     | Inr r \<Rightarrow>
                         (case getitem r ''Parameter'' of
                            Inl e \<Rightarrow> env
                          | Inr p \<Rightarrow>
                              (case getitem p ''Value'' of
                                 Inr (PStr https_url) \<Rightarrow> env(''MCP_SERVER_BASE_URL'' \<mapsto> https_url)
                               | _ \<Rightarrow> env))))"

text \<open>\<^verbatim>\<open>os.environ.get("MCP_SERVER_BASE_URL", f"http://localhost:{os.environ['PORT']}")\<close>:
  the default is evaluated first, so a missing \<^verbatim>\<open>PORT\<close> raises \<^verbatim>\<open>KeyError\<close>.\<close>

definition base_url :: "environ \<Rightarrow> exn + string" where
  "base_url env =
     (case env ''PORT'' of
        None \<Rightarrow> Inl (KeyError ''PORT'')
      | Some port \<Rightarrow> Inr (environ_get env ''MCP_SERVER_BASE_URL'' (''http://localhost:'' @ port)))"

subsection \<open>\<^verbatim>\<open>register_client\<close>\<close>

text \<open>The first required field that is missing (\<^verbatim>\<open>field not in client_metadata\<close>).\<close>

fun missing_field :: "pyval \<Rightarrow> string list \<Rightarrow> exn + string option" where
  "missing_field client_metadata [] = Inr None"
| "missing_field client_metadata (field # rest) =
     (case contains client_metadata field of
        Inl e \<Rightarrow> Inl e
      | Inr present \<Rightarrow>
          if \<not> present then Inr (Some field) else missing_field client_metadata rest)"

text \<open>The test on one redirect URI, and the loop over them: \<open>True\<close> when all pass.\<close>

fun redirect_uri_allowed :: "pyval \<Rightarrow> exn + bool" where
  "redirect_uri_allowed (PStr uri) =
     Inr (startswith uri ''https://'' \<or> startswith uri ''http://localhost''
          \<or> startswith uri ''http://127.0.0.1'')"
| "redirect_uri_allowed _ = Inl AttributeError"

fun redirect_uris_allowed :: "pyval list \<Rightarrow> exn + bool" where
  "redirect_uris_allowed [] = Inr True"
| "redirect_uris_allowed (uri # uris) =
     (case redirect_uri_allowed uri of
        Inl e \<Rightarrow> Inl e
      | Inr ok \<Rightarrow> if \<not> ok then Inr False else redirect_uris_allowed uris)"

text \<open>\<^verbatim>\<open>{'client_id': ..., ..., **client_metadata}\<close>\<close>

definition client_info_of :: "string \<Rightarrow> string \<Rightarrow> int \<Rightarrow> (string \<times> pyval) list \<Rightarrow> pyval" where
  "client_info_of client_id client_secret now client_metadata =
     PDict (foldl (\<lambda>d (k, v). dict_set d k v)
              [(''client_id'', PStr client_id), (''client_secret'', PStr client_secret),
               (''client_id_issued_at'', PInt now), (''client_secret_expires_at'', PInt 0)]
              client_metadata)"

text \<open>The body of the \<^verbatim>\<open>try\<close>; \<open>body\<close> is the result of \<^verbatim>\<open>await request.json()\<close>.\<close>

definition register_client_try ::
  "rat \<Rightarrow> string \<Rightarrow> string \<Rightarrow> token_store \<Rightarrow> exn + pyval \<Rightarrow> (exn + response) \<times> token_store" where
  "register_client_try time client_id client_secret store body =
     (case body of
        Inl e \<Rightarrow> (Inl e, store)
      | Inr client_metadata \<Rightarrow>
     (case missing_field client_metadata [''redirect_uris'', ''client_name''] of
        Inl e \<Rightarrow> (Inl e, store)
      | Inr (Some field) \<Rightarrow>
          (Inr (error_response ''invalid_client_metadata''
                  (''Missing required field: '' @ field) 400), store)
      | Inr None \<Rightarrow>
     (case getitem client_metadata ''redirect_uris'' of
        Inl e \<Rightarrow> (Inl e, store)
      | Inr uris \<Rightarrow>
     (case iterate uris of
        Inl e \<Rightarrow> (Inl e, store)
      | Inr uri_list \<Rightarrow>
     (case redirect_uris_allowed uri_list of
        Inl e \<Rightarrow> (Inl e, store)
      | Inr False \<Rightarrow>
          (Inr (error_response ''invalid_redirect_uri''
                  ''Redirect URIs must use HTTPS or localhost'' 400), store)
      | Inr True \<Rightarrow>
     (case client_metadata of
        PDict kvs \<Rightarrow>
          (let client_info = client_info_of client_id client_secret (int_trunc time) kvs
           in case store_client (int_trunc time) store client_id client_info of
                Inl e \<Rightarrow> (Inl e, store)
              | Inr store' \<Rightarrow> (Inr (JSONResponse client_info 200), store'))
      | _ \<Rightarrow> (Inl TypeError, store)))))))"

definition register_client ::
  "pylib \<Rightarrow> rat \<Rightarrow> string \<Rightarrow> string \<Rightarrow> token_store \<Rightarrow> exn + pyval \<Rightarrow> response \<times> token_store" where
  "register_client L time client_id client_secret store body =
     (case register_client_try time client_id client_secret store body of
        (Inl e, store') \<Rightarrow>
          (error_response ''invalid_client_metadata'' (str_exn L e) 400, store')
      | (Inr r, store') \<Rightarrow> (r, store'))"

subsection \<open>\<^verbatim>\<open>authorize\<close>\<close>

text \<open>\<open>q\<close> are the query parameters of the request.\<close>

definition authorize ::
  "pylib \<Rightarrow> environ \<Rightarrow> rat \<Rightarrow> string \<Rightarrow> token_store \<Rightarrow> (string \<rightharpoonup> string)
     \<Rightarrow> (exn + response) \<times> token_store" where
  "authorize L env0 time session_id store q =
     (let env = get_ssm_parameter L env0;
          state = q ''state'';
          code_challenge = q ''code_challenge'';
          code_challenge_method = (case q ''code_challenge_method'' of Some m \<Rightarrow> m | None \<Rightarrow> ''S256'');
          scope = (case q ''scope'' of Some sc \<Rightarrow> sc | None \<Rightarrow> [])
      in case (q ''client_id'', q ''redirect_uri'') of
           (Some client_id, Some redirect_uri) \<Rightarrow>
             if client_id = [] \<or> redirect_uri = [] \<or> q ''response_type'' \<noteq> Some ''code''
             then (Inr (error_response ''invalid_request''
                          ''Missing required parameters or invalid response_type'' 400), store)
             else
               (let client = get_client store client_id
                in if \<not> truthy client
                   then (Inr (error_response ''invalid_client'' ''Unknown client'' 401), store)
                   else
               (case getitem client ''redirect_uris'' of
                  Inl e \<Rightarrow> (Inl e, store)
                | Inr uris \<Rightarrow>
               (case contains uris redirect_uri of
                  Inl e \<Rightarrow> (Inl e, store)
                | Inr registered \<Rightarrow>
                   if \<not> registered
                   then (Inr (error_response ''invalid_redirect_uri''
                                ''Redirect URI doesn't match registered URIs'' 400), store)
                   else
               (let session_data = PDict
                      [(''client_id'', PStr client_id), (''redirect_uri'', PStr redirect_uri),
                       (''state'', param state), (''code_challenge'', param code_challenge),
                       (''code_challenge_method'', PStr code_challenge_method),
                       (''scope'', PStr scope), (''created_at'', PFloat (Finite time))]
                in case store_session (int_trunc time) store session_id session_data of
                     Inl e \<Rightarrow> (Inl e, store)
                   | Inr store' \<Rightarrow>
               (case base_url env of
                  Inl e \<Rightarrow> (Inl e, store')
                | Inr base \<Rightarrow>
               (let cognito_auth_url =
                      ''https://'' @ fstr (env ''COGNITO_DOMAIN'') @ ''.auth.''
                        @ environ_get env ''AWS_REGION'' ''us-west-2''
                        @ ''.amazoncognito.com/oauth2/authorize''
                        @ ''?client_id='' @ fstr (env ''COGNITO_CLIENT_ID'')
                        @ ''&response_type=code''
                        @ ''&redirect_uri='' @ base @ ''/callback''
                        @ ''&state='' @ session_id
                in (Inr (RedirectResponse
                           (if scope \<noteq> [] then cognito_auth_url @ ''&scope='' @ scope
                            else cognito_auth_url) 302), store')))))))
         | _ \<Rightarrow> (Inr (error_response ''invalid_request''
                          ''Missing required parameters or invalid response_type'' 400), store))"

subsection \<open>\<^verbatim>\<open>callback\<close>\<close>

text \<open>The body of the \<^verbatim>\<open>try\<close>: the exchange with the provider, the new authorization
  code mapping and the redirect to the client. \<open>upstream\<close> is the provider's answer, the
  source's \<^verbatim>\<open>tokens\<close>.\<close>

definition callback_try ::
  "pylib \<Rightarrow> environ \<Rightarrow> rat \<Rightarrow> string \<Rightarrow> token_store \<Rightarrow> string \<Rightarrow> pyval
     \<Rightarrow> (exn + response) \<times> token_store" where
  "callback_try L env0 time mcp_auth_code store code session =
     (let env = get_ssm_parameter L env0;
          cognito_client_id = env ''COGNITO_CLIENT_ID'';
          cognito_client_secret = env ''COGNITO_CLIENT_SECRET''
      in case base_url env of
           Inl e \<Rightarrow> (Inl e, store)
         | Inr base \<Rightarrow>
     (let callback_url = base @ ''/callback'';
          token_url = ''https://'' @ fstr (env ''COGNITO_DOMAIN'') @ ''.auth.''
                        @ environ_get env ''AWS_REGION'' ''us-west-2''
                        @ ''.amazoncognito.com/oauth2/token'';
          form_data = PDict [(''grant_type'', PStr ''authorization_code''),
                             (''client_id'', param cognito_client_id),
                             (''code'', PStr code), (''redirect_uri'', PStr callback_url)];
          headers = [(''Content-Type'', PStr ''application/x-www-form-urlencoded''),
                     (''Accept'', PStr ''application/json'')];
          headers' = (if truthy (param cognito_client_secret)
                      then dict_set headers ''Authorization''
                             (PStr (''Basic '' @ b64encode (encode_utf8
                                (fstr cognito_client_id @ '':'' @ fstr cognito_client_secret))))
                      else headers)
      in case httpx_post_json L token_url form_data (PDict headers') of
           Inl e \<Rightarrow> (Inl e, store)
         | Inr upstream \<Rightarrow>
     (case keys upstream of
        Inl e \<Rightarrow> (Inl e, store)
      | Inr received \<Rightarrow>
     (case getitem upstream ''access_token'' of
        Inl e \<Rightarrow> (Inl e, store)
      | Inr access_token \<Rightarrow>
     (case get_default upstream ''refresh_token'' PNone of
        Inl e \<Rightarrow> (Inl e, store)
      | Inr refresh_token \<Rightarrow>
     (case get_default upstream ''id_token'' PNone of
        Inl e \<Rightarrow> (Inl e, store)
      | Inr id_token \<Rightarrow>
     (case getitem session ''client_id'' of
        Inl e \<Rightarrow> (Inl e, store)
      | Inr client_id \<Rightarrow>
     (case getitem session ''scope'' of
        Inl e \<Rightarrow> (Inl e, store)
      | Inr scope \<Rightarrow>
     (case getitem session ''code_challenge'' of
        Inl e \<Rightarrow> (Inl e, store)
      | Inr code_challenge \<Rightarrow>
     (case getitem session ''code_challenge_method'' of
        Inl e \<Rightarrow> (Inl e, store)
      | Inr code_challenge_method \<Rightarrow>
     (case get_default upstream ''expires_in'' (PInt 3600) of
        Inl e \<Rightarrow> (Inl e, store)
      | Inr expires_in \<Rightarrow>
     (let token_data = PDict
            [(''cognito_access_token'', access_token),
             (''cognito_refresh_token'', refresh_token),
             (''cognito_id_token'', id_token),
             (''client_id'', client_id),
             (''scope'', scope),
             (''code_challenge'', code_challenge),
             (''code_challenge_method'', code_challenge_method),
             (''created_at'', PFloat (Finite time)),
             (''expires_in'', expires_in)]
      in case store_token_mapping (int_trunc time) store mcp_auth_code token_data of
           Inl e \<Rightarrow> (Inl e, store)
         | Inr store' \<Rightarrow>
     (case get_default session ''state'' PNone of
        Inl e \<Rightarrow> (Inl e, store')
      | Inr state \<Rightarrow>
     (let redirect_params =
            (if truthy state then [(''code'', PStr mcp_auth_code), (''state'', state)]
             else [(''code'', PStr mcp_auth_code)])
      in case getitem session ''redirect_uri'' of
           Inr (PStr redirect_url) \<Rightarrow>
             (case urlencode L (PDict redirect_params) of
                Inl e \<Rightarrow> (Inl e, store')
              | Inr query \<Rightarrow>
                  (Inr (RedirectResponse
                          (if CHR ''?'' \<in> set redirect_url then redirect_url @ ''&'' @ query
                           else redirect_url @ ''?'' @ query) 302), store'))
         | Inr _ \<Rightarrow> (Inl TypeError, store')
         | Inl e \<Rightarrow> (Inl e, store')))))))))))))))"

text \<open>
  \<^verbatim>\<open>callback\<close>. The two \<^verbatim>\<open>print\<close> calls before the \<^verbatim>\<open>try\<close> read
  \<^verbatim>\<open>session['client_id']\<close> and \<^verbatim>\<open>session['redirect_uri']\<close>, so a session without them
  raises there. A session whose \<^verbatim>\<open>redirect_uri\<close> is not a string (\<^verbatim>\<open>authorize\<close> stores
  none) is reported as a \<^verbatim>\<open>TypeError\<close>.
\<close>

definition callback ::
  "pylib \<Rightarrow> environ \<Rightarrow> rat \<Rightarrow> string \<Rightarrow> token_store \<Rightarrow> (string \<rightharpoonup> string)
     \<Rightarrow> (exn + response) \<times> token_store" where
  "callback L env0 time mcp_auth_code store q =
     (if truthy (param (q ''error''))
      then (Inr (JSONResponse (PDict
                    [(''error'', param (q ''error'')),
                     (''error_description'',
                        PStr (case q ''error_description'' of Some d \<Rightarrow> d | None \<Rightarrow> ''Unknown error''))])
                  400), store)
      else case (q ''code'', q ''state'') of
             (Some code, Some state) \<Rightarrow>
               if code = [] \<or> state = []
               then (Inr (error_response ''invalid_request''
                            ''Missing code or state parameter'' 400), store)
               else
                 (case get_session (int_trunc time) store state of
                    (session, store1) \<Rightarrow>
                      if \<not> truthy session
                      then (Inr (error_response ''invalid_state''
                                   ''Invalid or expired state'' 400), store1)
                      else
                 (case getitem session ''client_id'' of
                    Inl e \<Rightarrow> (Inl e, store1)
                  | Inr c \<Rightarrow>
                 (case getitem session ''redirect_uri'' of
                    Inl e \<Rightarrow> (Inl e, store1)
                  | Inr r \<Rightarrow>
                 (case callback_try L env0 time mcp_auth_code store1 code session of
                    (Inl e, store2) \<Rightarrow>
                      (Inr (error_response ''server_error''
                              (''Failed to exchange authorization code for tokens: '' @ str_exn L e)
                              500), store2)
                  | (Inr resp, store2) \<Rightarrow> (Inr resp, store2)))))
           | _ \<Rightarrow> (Inr (error_response ''invalid_request''
                            ''Missing code or state parameter'' 400), store))"

subsection \<open>\<^verbatim>\<open>handle_authorization_code_grant\<close>\<close>

text \<open>Step 4 of the handler, the PKCE check: \<open>Some r\<close> is the error response int_trunc_1002 returns,
  \<open>None\<close> lets the handler go on to step 5.\<close>

definition pkce_check :: "pylib \<Rightarrow> pyval \<Rightarrow> string option \<Rightarrow> exn + response option" where
  "pkce_check L token_mapping code_verifier =
     (case contains token_mapping ''code_challenge'' of
        Inl e \<Rightarrow> Inl e
      | Inr False \<Rightarrow> Inr None
      | Inr True \<Rightarrow>
          if \<not> truthy (param code_verifier)
          then Inr (Some (error_response ''invalid_request'' ''Missing code_verifier'' 400))
          else
            (case getitem token_mapping ''code_challenge_method'' of
               Inl e \<Rightarrow> Inl e
             | Inr method \<Rightarrow>
                 if method = PStr ''S256'' then
                   (case encode_ascii (fstr code_verifier) of
                      Inl e \<Rightarrow> Inl e
                    | Inr verifier_bytes \<Rightarrow>
                        (let digest = sha256 L verifier_bytes;
                             challenge = rstrip_eq (urlsafe_b64encode digest)
                         in case getitem token_mapping ''code_challenge'' of
                              Inl e \<Rightarrow> Inl e
                            | Inr stored \<Rightarrow>
                                if PStr challenge \<noteq> stored
                                then Inr (Some (error_response ''invalid_grant''
                                                  ''Invalid code_verifier'' 400))
                                else Inr None))
                 else Inr None))"

text \<open>Step 5 and the rest: the access token, the refresh token mapping, the removal of
  the used code and the token response.\<close>

definition issue_tokens ::
  "pylib \<Rightarrow> environ \<Rightarrow> int \<Rightarrow> string \<Rightarrow> string \<Rightarrow> token_store \<Rightarrow> string \<Rightarrow> string \<Rightarrow> pyval
     \<Rightarrow> (exn + response) \<times> token_store" where
  "issue_tokens L env now jti new_refresh_token store code client_id token_mapping =
     (case get_default token_mapping ''expires_in'' (PInt 3600) of
        Inl e \<Rightarrow> (Inl e, store)
      | Inr expires_in \<Rightarrow>
     (case base_url env of
        Inl e \<Rightarrow> (Inl e, store)
      | Inr iss \<Rightarrow>
     (case int_add now expires_in of
        Inl e \<Rightarrow> (Inl e, store)
      | Inr exp_claim \<Rightarrow>
     (case getitem token_mapping ''scope'' of
        Inl e \<Rightarrow> (Inl e, store)
      | Inr scope \<Rightarrow>
     (case getitem token_mapping ''cognito_access_token'' of
        Inl e \<Rightarrow> (Inl e, store)
      | Inr cognito_token \<Rightarrow>
     (let access_token_claims = PDict
            [(''iss'', PStr iss), (''sub'', PStr client_id), (''aud'', PStr ''mcp-server''),
             (''exp'', exp_claim), (''iat'', PInt now), (''jti'', PStr jti),
             (''scope'', scope), (''cognito_token'', cognito_token), (''kid'', PStr ''mcp-1'')]
      in case jwt_encode L access_token_claims
                (environ_get env ''JWT_SECRET_KEY'' ''your-secret-key'') ''HS256''
                (PDict [(''kid'', PStr ''mcp-1''), (''typ'', PStr ''JWT'')]) of
           Inl e \<Rightarrow> (Inl e, store)
         | Inr access_token \<Rightarrow>
     (let response = [(''access_token'', PStr access_token), (''token_type'', PStr ''Bearer''),
                      (''expires_in'', expires_in), (''scope'', scope)]
      in case contains token_mapping ''cognito_refresh_token'' of
           Inl e \<Rightarrow> (Inl e, store)
         | Inr False \<Rightarrow>
             (Inr (JSONResponse (PDict response) 200), delete_token_mapping store code)
         | Inr True \<Rightarrow>
     (case getitem token_mapping ''cognito_refresh_token'' of
        Inl e \<Rightarrow> (Inl e, store)
      | Inr cognito_refresh_token \<Rightarrow>
     (case store_refresh_token now store new_refresh_token
             (PDict [(''client_id'', PStr client_id),
                     (''cognito_refresh_token'', cognito_refresh_token),
                     (''scope'', scope), (''created_at'', PInt now)]) of
        Inl e \<Rightarrow> (Inl e, store)
      | Inr store' \<Rightarrow>
          (Inr (JSONResponse
                  (PDict (if new_refresh_token \<noteq> []
                          then response @ [(''refresh_token'', PStr new_refresh_token)]
                          else response)) 200),
           delete_token_mapping store' code))))))))))"

text \<open>
  \<^verbatim>\<open>handle_authorization_code_grant(code, client_id, redirect_uri, code_verifier)\<close>:
  \<open>jti\<close> and \<open>new_refresh_token\<close> are the two identifiers int_trunc_1002 draws. The result is the
  response, or the exception that leaves the handler, with the store as int_trunc_1002 is then.
\<close>

definition handle_authorization_code_grant ::
  "pylib \<Rightarrow> environ \<Rightarrow> rat \<Rightarrow> string \<Rightarrow> string \<Rightarrow> token_store
     \<Rightarrow> string option \<Rightarrow> string option \<Rightarrow> string option \<Rightarrow> string option
     \<Rightarrow> (exn + response) \<times> token_store" where
  "handle_authorization_code_grant L env0 time jti new_refresh_token store
       code client_id redirect_uri code_verifier =
     (let env = get_ssm_parameter L env0
      in if \<not> truthy (param code) \<or> \<not> truthy (param client_id) \<or> \<not> truthy (param redirect_uri)
         then (Inr (error_response ''invalid_request'' ''Missing required parameters'' 400), store)
         else
           (case get_token_mapping (int_trunc time) store (fstr code) of
              (token_mapping, store1) \<Rightarrow>
                if \<not> truthy token_mapping
                then (Inr (error_response ''invalid_grant'' ''Invalid authorization code'' 400),
                      store1)
                else
           (case getitem token_mapping ''client_id'' of
              Inl e \<Rightarrow> (Inl e, store1)
            | Inr issued_to \<Rightarrow>
                if issued_to \<noteq> param client_id
                then (Inr (error_response ''invalid_grant''
                             ''Authorization code was issued to another client'' 400), store1)
                else
           (case pkce_check L token_mapping code_verifier of
              Inl e \<Rightarrow> (Inl e, store1)
            | Inr (Some r) \<Rightarrow> (Inr r, store1)
            | Inr None \<Rightarrow>
                issue_tokens L env (int_trunc time) jti new_refresh_token store1
                  (fstr code) (fstr client_id) token_mapping))))"

subsection \<open>Token validation\<close>

text \<open>The loop over \<^verbatim>\<open>jwks['keys']\<close>: the first key whose \<^verbatim>\<open>kid\<close> equals the token's, or
  \<^verbatim>\<open>None\<close>.\<close>

fun find_key :: "pyval list \<Rightarrow> pyval \<Rightarrow> exn + pyval" where
  "find_key [] kid = Inr PNone"
| "find_key (jwk # jwks) kid =
     (case getitem jwk ''kid'' of
        Inl e \<Rightarrow> Inl e
      | Inr k \<Rightarrow> if py_eq k kid then Inr jwk else find_key jwks kid)"

text \<open>A library call on a token that is not a string raises.\<close>

definition header_of :: "pylib \<Rightarrow> pyval \<Rightarrow> exn + pyval" where
  "header_of L token =
     (case token of PStr t \<Rightarrow> jwt_get_unverified_header L t
                  | _ \<Rightarrow> Inl (LibraryError ''DecodeError''))"

definition decode :: "pylib \<Rightarrow> pyval \<Rightarrow> jwtkey \<Rightarrow> decode_args \<Rightarrow> exn + pyval" where
  "decode L token key args =
     (case token of PStr t \<Rightarrow> jwt_decode L t key args
                  | _ \<Rightarrow> Inl (LibraryError ''DecodeError''))"

definition cognito_issuer :: "environ \<Rightarrow> string" where
  "cognito_issuer env =
     ''https://cognito-idp.'' @ environ_get env ''AWS_REGION'' ''us-west-2''
       @ ''.amazonaws.com/'' @ fstr (env ''COGNITO_USER_POOL_ID'')"

text \<open>The body of the \<^verbatim>\<open>try\<close> of \<^verbatim>\<open>validate_cognito_token\<close>.\<close>

definition validate_cognito_token_try :: "pylib \<Rightarrow> environ \<Rightarrow> pyval \<Rightarrow> exn + bool \<times> pyval" where
  "validate_cognito_token_try L env token =
     (case httpx_get_json L (cognito_issuer env @ ''/.well-known/jwks.json'') of
        Inl e \<Rightarrow> Inl e
      | Inr jwks \<Rightarrow>
     (case header_of L token of
        Inl e \<Rightarrow> Inl e
      | Inr headers \<Rightarrow>
     (case getitem headers ''kid'' of
        Inl e \<Rightarrow> Inl e
      | Inr kid \<Rightarrow>
     (case getitem jwks ''keys'' of
        Inl e \<Rightarrow> Inl e
      | Inr key_set \<Rightarrow>
     (case iterate key_set of
        Inl e \<Rightarrow> Inl e
      | Inr key_list \<Rightarrow>
     (case find_key key_list kid of
        Inl e \<Rightarrow> Inl e
      | Inr key \<Rightarrow>
          if \<not> truthy key then Inr (False, PDict [])
          else
     (case from_jwk L key of
        Inl e \<Rightarrow> Inl e
      | Inr public_key \<Rightarrow>
     (case decode L token public_key
             \<lparr>algorithms = [''RS256''], verify_exp = True, audience = None,
              issuer = Some (cognito_issuer env)\<rparr> of
        Inl e \<Rightarrow> Inl e
      | Inr claims \<Rightarrow>
     (case get_default claims ''token_use'' PNone of
        Inl e \<Rightarrow> Inl e
      | Inr token_use \<Rightarrow>
          if token_use \<noteq> PStr ''access'' then Inr (False, PDict [])
          else
     (case get_default claims ''client_id'' PNone of
        Inl e \<Rightarrow> Inl e
      | Inr claimed_client \<Rightarrow>
          if claimed_client \<noteq> param (env ''COGNITO_CLIENT_ID'') then Inr (False, PDict [])
          else Inr (True, claims)))))))))))"

definition validate_cognito_token :: "pylib \<Rightarrow> environ \<Rightarrow> pyval \<Rightarrow> bool \<times> pyval" where
  "validate_cognito_token L env token =
     (case validate_cognito_token_try L env token of
        Inl e \<Rightarrow> (False, PDict [])
      | Inr r \<Rightarrow> r)"

text \<open>The body of the \<^verbatim>\<open>try\<close> of \<^verbatim>\<open>validate_token\<close>, and \<^verbatim>\<open>validate_token\<close>.\<close>

definition validate_token_try :: "pylib \<Rightarrow> environ \<Rightarrow> string \<Rightarrow> exn + bool \<times> pyval" where
  "validate_token_try L env token =
     (case jwt_get_unverified_header L token of
        Inl e \<Rightarrow> Inl e
      | Inr headers \<Rightarrow>
     (case get_default headers ''kid'' PNone of
        Inl e \<Rightarrow> Inl e
      | Inr kid \<Rightarrow>
          if \<not> truthy kid then Inr (validate_cognito_token L env (PStr token))
          else
     (case kid of
        PStr kid_str \<Rightarrow>
          if startswith kid_str ''mcp-'' then
            (case jwt_decode L token
                    (HMACKey (environ_get env ''JWT_SECRET_KEY'' ''your-secret-key''))
                    \<lparr>algorithms = [''HS256''], verify_exp = True,
                     audience = Some ''mcp-server'', issuer = None\<rparr> of
               Inl e \<Rightarrow> Inl e
             | Inr claims \<Rightarrow>
            (case keys claims of
               Inl e \<Rightarrow> Inl e
             | Inr claim_names \<Rightarrow>
            (case contains claims ''cognito_token'' of
               Inl e \<Rightarrow> Inl e
             | Inr False \<Rightarrow> Inr (True, claims)
             | Inr True \<Rightarrow>
            (case getitem claims ''cognito_token'' of
               Inl e \<Rightarrow> Inl e
             | Inr cognito_token \<Rightarrow>
                 if \<not> fst (validate_cognito_token L env cognito_token)
                 then Inr (False, PDict [])
                 else Inr (True, claims)))))
          else Inr (validate_cognito_token L env (PStr token))
      | _ \<Rightarrow> Inl AttributeError)))"

definition validate_token :: "pylib \<Rightarrow> environ \<Rightarrow> string \<Rightarrow> bool \<times> pyval" where
  "validate_token L env token =
     (case validate_token_try L env token of
        Inl e \<Rightarrow> (False, PDict [])
      | Inr r \<Rightarrow> r)"

section \<open>A scripted environment\<close>

text \<open>
  A fixed library, used to run the handlers on concrete requests: the provider answers
  every code exchange with the access token \<^verbatim>\<open>upstream.jwt\<close>, signing always yields
  \<^verbatim>\<open>broker.jwt\<close>, and PyJWT knows a handful of tokens, each failing validation at a
  different step. The hash is a stand-in: int_trunc_1002 returns its input.
\<close>

definition scripted_header :: "string \<Rightarrow> exn + pyval" where
  "scripted_header t =
     (if t = ''broker.jwt'' \<or> t = ''expired.jwt'' \<or> t = ''stale.jwt''
      then Inr (PDict [(''kid'', PStr ''mcp-1'')])
      else if t = ''unknown-kid.jwt'' then Inr (PDict [(''kid'', PStr ''key-9'')])
      else if t = ''upstream.jwt'' \<or> t = ''forged.jwt'' \<or> t = ''id-token.jwt''
              \<or> t = ''other-client.jwt''
      then Inr (PDict [(''kid'', PStr ''key-1'')])
      else Inl (LibraryError ''DecodeError''))"

definition scripted_decode :: "string \<Rightarrow> jwtkey \<Rightarrow> decode_args \<Rightarrow> exn + pyval" where
  "scripted_decode t key args =
     (if t = ''broker.jwt'' \<and> algorithms args = [''HS256'']
      then Inr (PDict [(''sub'', PStr ''client-1''), (''cognito_token'', PStr ''upstream.jwt'')])
      else if t = ''stale.jwt'' \<and> algorithms args = [''HS256'']
      then Inr (PDict [(''sub'', PStr ''client-1''), (''cognito_token'', PStr ''forged.jwt'')])
      else if t = ''upstream.jwt'' \<and> algorithms args = [''RS256'']
      then Inr (PDict [(''token_use'', PStr ''access''), (''client_id'', PStr ''upstream-client'')])
      else if t = ''id-token.jwt'' \<and> algorithms args = [''RS256'']
      then Inr (PDict [(''token_use'', PStr ''id''), (''client_id'', PStr ''upstream-client'')])
      else if t = ''other-client.jwt'' \<and> algorithms args = [''RS256'']
      then Inr (PDict [(''token_use'', PStr ''access''), (''client_id'', PStr ''someone-else'')])
      else if t = ''expired.jwt'' then Inl (LibraryError ''ExpiredSignatureError'')
      else Inl (LibraryError ''InvalidSignatureError''))"

definition scripted_urlencode :: "pyval \<Rightarrow> exn + string" where
  "scripted_urlencode params =
     (case params of
        PDict [(k, PStr v)] \<Rightarrow> Inr (k @ ''='' @ v)
      | PDict [(k, PStr v), (k', PStr v')] \<Rightarrow> Inr (k @ ''='' @ v @ ''&'' @ k' @ ''='' @ v')
      | _ \<Rightarrow> Inl TypeError)"

definition scripted_lib :: pylib where
  "scripted_lib =
     \<lparr>sha256 = (\<lambda>bs. bs),
      str_exn = (\<lambda>e. ''exception''),
      ssm_get_parameter = (\<lambda>name. Inl (LibraryError ''ParameterNotFound'')),
      httpx_get_json = (\<lambda>url. Inr (PDict [(''keys'', PList [PDict [(''kid'', PStr ''key-1'')]])])),
      httpx_post_json = (\<lambda>url form headers.
         Inr (PDict [(''access_token'', PStr ''upstream.jwt''), (''expires_in'', PInt 3600)])),
      urlencode = scripted_urlencode,
      jwt_encode = (\<lambda>claims key alg headers. Inr ''broker.jwt''),
      jwt_get_unverified_header = scripted_header,
      jwt_decode = scripted_decode,
      from_jwk = (\<lambda>jwk. Inr (RSAKey jwk))\<rparr>"

definition scripted_env :: environ where
  "scripted_env = [''PORT'' \<mapsto> ''8080'', ''COGNITO_CLIENT_ID'' \<mapsto> ''upstream-client'']"

text \<open>An authorization code mapping as \<^verbatim>\<open>callback\<close> stores it, with a given
  \<^verbatim>\<open>code_challenge\<close> and \<^verbatim>\<open>code_challenge_method\<close>, and the volatile store that holds
  int_trunc_1002 under the code \<^verbatim>\<open>code-1\<close>, written at time 1000.\<close>

definition scripted_mapping :: "pyval \<Rightarrow> pyval \<Rightarrow> pyval" where
  "scripted_mapping challenge method =
     PDict [(''cognito_access_token'', PStr ''upstream.jwt''),
            (''cognito_refresh_token'', PNone), (''cognito_id_token'', PNone),
            (''client_id'', PStr ''client-1''), (''scope'', PStr ''openid''),
            (''code_challenge'', challenge), (''code_challenge_method'', method),
            (''created_at'', PFloat (Finite 1000)), (''expires_in'', PInt 3600)]"

definition scripted_store :: "pyval \<Rightarrow> token_store" where
  "scripted_store tm = Local (Local_store_token_mapping 1000 Local_init ''code-1'' tm)"

section \<open>Properties of the stores\<close>

subsection \<open>The factory falls back to the volatile store\<close>

lemma get_token_store_unconfigured:
  "env ''TOKEN_TABLE_NAME'' = None \<or> env ''TOKEN_TABLE_NAME'' = Some [] \<Longrightarrow>
   get_token_store boto3_Table env = Local Local_init"
  by (auto simp: get_token_store_def)

lemma get_token_store_init_raises:
  "Dynamo_init boto3_Table env = Inl e \<Longrightarrow> get_token_store boto3_Table env = Local Local_init"
  by (simp add: get_token_store_def split: option.splits)

lemma get_token_store_cases:
  "get_token_store boto3_Table env = Local Local_init \<or>
   (\<exists>s. Dynamo_init boto3_Table env = Inr s \<and> get_token_store boto3_Table env = Dynamo s)"
  by (simp add: get_token_store_def split: option.splits sum.splits)

lemma Dynamo_init_table_raises:
  "env ''TOKEN_TABLE_NAME'' = Some name \<Longrightarrow> name \<noteq> [] \<Longrightarrow>
   boto3_Table (case env ''AWS_REGION'' of Some r \<Rightarrow> r | None \<Rightarrow> ''us-west-2'') name = Inl e \<Longrightarrow>
   Dynamo_init boto3_Table env = Inl e"
  by (simp add: Dynamo_init_def)

text \<open>
  Claim C9. \<^verbatim>\<open>get_token_store\<close> returns a store in every case and never raises: when
  \<^verbatim>\<open>TOKEN_TABLE_NAME\<close> is set and constructing the durable store raises (whatever
  exception the boto3 call or the constructor raises), the result is a fresh
  \<^verbatim>\<open>LocalTokenStore\<close>; when \<^verbatim>\<open>TOKEN_TABLE_NAME\<close> is unset or empty, the result is a
  fresh \<^verbatim>\<open>LocalTokenStore\<close> as well; otherwise int_trunc_1002 is the durable store that was
  constructed.
\<close>

theorem get_token_store_fails_open:
  "(\<forall>name e. env ''TOKEN_TABLE_NAME'' = Some name \<and> name \<noteq> [] \<and>
       boto3_Table (case env ''AWS_REGION'' of Some r \<Rightarrow> r | None \<Rightarrow> ''us-west-2'') name = Inl e
       \<longrightarrow> get_token_store boto3_Table env = Local Local_init)
   \<and> (\<forall>e. Dynamo_init boto3_Table env = Inl e \<longrightarrow> get_token_store boto3_Table env = Local Local_init)
   \<and> (env ''TOKEN_TABLE_NAME'' = None \<or> env ''TOKEN_TABLE_NAME'' = Some []
       \<longrightarrow> get_token_store boto3_Table env = Local Local_init)
   \<and> (get_token_store boto3_Table env = Local Local_init \<or>
       (\<exists>s. Dynamo_init boto3_Table env = Inr s \<and> get_token_store boto3_Table env = Dynamo s))"
proof -
  have "get_token_store boto3_Table env = Local Local_init"
    if "env ''TOKEN_TABLE_NAME'' = Some name" "name \<noteq> []"
       "boto3_Table (case env ''AWS_REGION'' of Some r \<Rightarrow> r | None \<Rightarrow> ''us-west-2'') name = Inl e"
    for name e
    using that by (auto dest: Dynamo_init_table_raises intro: get_token_store_init_raises)
  then show ?thesis
    using get_token_store_init_raises get_token_store_unconfigured get_token_store_cases
    by blast
qed

theorem get_token_store_fails_open_witness:
  "[''TOKEN_TABLE_NAME'' \<mapsto> ''tokens''] ''TOKEN_TABLE_NAME'' = Some ''tokens''
   \<and> ''tokens'' \<noteq> []
   \<and> (\<lambda>region name. Inl (LibraryError ''NoCredentialsError'') :: exn + Table) ''us-west-2'' ''tokens''
        = Inl (LibraryError ''NoCredentialsError'')
   \<and> get_token_store (\<lambda>region name. Inl (LibraryError ''NoCredentialsError''))
        [''TOKEN_TABLE_NAME'' \<mapsto> ''tokens''] = Local Local_init
   \<and> get_token_store (\<lambda>region name. Inr Map.empty) Map.empty = Local Local_init
   \<and> get_token_store (\<lambda>region name. Inr Map.empty) [''TOKEN_TABLE_NAME'' \<mapsto> ''tokens'']
        = Dynamo \<lparr>table_name = ''tokens'', table = Map.empty\<rparr>"
proof -
  have a: "get_token_store (\<lambda>region name. Inl (LibraryError ''NoCredentialsError''))
        [''TOKEN_TABLE_NAME'' \<mapsto> ''tokens''] = Local Local_init"
    using get_token_store_fails_open
      [of "[''TOKEN_TABLE_NAME'' \<mapsto> ''tokens'']"
          "\<lambda>region name. Inl (LibraryError ''NoCredentialsError'')"]
    by simp
  have b: "get_token_store (\<lambda>region name. Inr Map.empty) Map.empty = Local Local_init"
    using get_token_store_fails_open [of Map.empty "\<lambda>region name. Inr Map.empty"]
    by simp
  have c: "get_token_store (\<lambda>region name. Inr Map.empty) [''TOKEN_TABLE_NAME'' \<mapsto> ''tokens'']
        = Dynamo \<lparr>table_name = ''tokens'', table = Map.empty\<rparr>"
    by (simp add: get_token_store_def Dynamo_init_def)
  show ?thesis using a b c by simp
qed

subsection \<open>Expiry on read\<close>

lemma Local_get_session_expired:
  "sessions s k = Some e \<Longrightarrow> expired e now \<Longrightarrow>
   Local_get_session now s k = (PNone, Local_delete_session s k)"
  by (simp add: Local_get_session_def Local_delete_session_def)

lemma Local_get_token_mapping_expired:
  "tokens s k = Some e \<Longrightarrow> expired e now \<Longrightarrow>
   Local_get_token_mapping now s k = (PNone, Local_delete_token_mapping s k)"
  by (simp add: Local_get_token_mapping_def Local_delete_token_mapping_def)

lemma Local_get_refresh_token_expired:
  "refresh_tokens s k = Some e \<Longrightarrow> expired e now \<Longrightarrow>
   Local_get_refresh_token now s k = (PNone, Local_delete_refresh_token s k)"
  by (simp add: Local_get_refresh_token_def Local_delete_refresh_token_def)

lemma Local_get_session_deleted:
  "Local_get_session now (Local_delete_session s k) k = (PNone, Local_delete_session s k)"
  by (simp add: Local_get_session_def Local_delete_session_def)

lemma Local_get_token_mapping_deleted:
  "Local_get_token_mapping now (Local_delete_token_mapping s k) k
     = (PNone, Local_delete_token_mapping s k)"
  by (simp add: Local_get_token_mapping_def Local_delete_token_mapping_def)

lemma Local_get_refresh_token_deleted:
  "Local_get_refresh_token now (Local_delete_refresh_token s k) k
     = (PNone, Local_delete_refresh_token s k)"
  by (simp add: Local_get_refresh_token_def Local_delete_refresh_token_def)

lemma Local_session_ttl:
  assumes "0 \<le> t0"
  shows "Local_get_session now (Local_store_session t0 s k v) k =
           (if t0 + 24 * 60 * 60 < now then (PNone, Local_delete_session s k)
            else (v, Local_store_session t0 s k v))"
  using assms
  by (simp add: Local_get_session_def Local_delete_session_def Local_store_session_def expired_def)

lemma Local_token_mapping_ttl:
  assumes "0 \<le> t0"
  shows "Local_get_token_mapping now (Local_store_token_mapping t0 s k v) k =
           (if t0 + 10 * 60 < now then (PNone, Local_delete_token_mapping s k)
            else (v, Local_store_token_mapping t0 s k v))"
  using assms
  by (simp add: Local_get_token_mapping_def Local_delete_token_mapping_def
      Local_store_token_mapping_def expired_def)

lemma Local_refresh_token_ttl:
  assumes "0 \<le> t0"
  shows "Local_get_refresh_token now (Local_store_refresh_token t0 s k v) k =
           (if t0 + 30 * 24 * 60 * 60 < now then (PNone, Local_delete_refresh_token s k)
            else (v, Local_store_refresh_token t0 s k v))"
  using assms
  by (simp add: Local_get_refresh_token_def Local_delete_refresh_token_def
      Local_store_refresh_token_def expired_def)

lemma put_item_get_item_data:
  "put_item d key item = Inr d' \<Longrightarrow> get_item_data d' key = ddb_value (data item)"
  by (auto simp: put_item_def get_item_data_def split: if_splits)

lemma Dynamo_session_no_ttl:
  "Dynamo_store_session t0 d k v = Inr d' \<Longrightarrow>
   Dynamo_get_session d' k = decimals_or_None (ddb_value (convert_floats v))"
  by (simp add: Dynamo_store_session_def Dynamo_get_session_def put_item_get_item_data)

lemma Dynamo_token_mapping_no_ttl:
  "Dynamo_store_token_mapping t0 d k v = Inr d' \<Longrightarrow>
   Dynamo_get_token_mapping d' k = decimals_or_None (ddb_value (convert_floats v))"
  by (simp add: Dynamo_store_token_mapping_def Dynamo_get_token_mapping_def put_item_get_item_data)

lemma Dynamo_refresh_token_no_ttl:
  "Dynamo_store_refresh_token t0 d k v = Inr d' \<Longrightarrow>
   Dynamo_get_refresh_token d' k = decimals_or_None (ddb_value (convert_floats v))"
  by (simp add: Dynamo_store_refresh_token_def Dynamo_get_refresh_token_def put_item_get_item_data)

section \<open>Properties of token validation\<close>

lemma validate_cognito_token_cases:
  "validate_cognito_token L env t = (False, PDict []) \<or>
   (\<exists>c. validate_cognito_token L env t = (True, c))"
  by (simp add: validate_cognito_token_def validate_cognito_token_try_def split: sum.split)

lemma validate_cognito_token_TrueD:
  assumes "validate_cognito_token L env t = (True, c)"
  shows "\<exists>jwks headers kid key_set key_list key public_key.
           httpx_get_json L (cognito_issuer env @ ''/.well-known/jwks.json'') = Inr jwks
         \<and> header_of L t = Inr headers
         \<and> getitem headers ''kid'' = Inr kid
         \<and> getitem jwks ''keys'' = Inr key_set
         \<and> iterate key_set = Inr key_list
         \<and> find_key key_list kid = Inr key \<and> truthy key
         \<and> from_jwk L key = Inr public_key
         \<and> decode L t public_key
              \<lparr>algorithms = [''RS256''], verify_exp = True, audience = None,
               issuer = Some (cognito_issuer env)\<rparr> = Inr c
         \<and> get_default c ''token_use'' PNone = Inr (PStr ''access'')
         \<and> get_default c ''client_id'' PNone = Inr (param (env ''COGNITO_CLIENT_ID''))"
  using assms
  by (simp add: validate_cognito_token_def validate_cognito_token_try_def
      split: sum.splits if_splits)

lemma validate_token_try_cases:
  "validate_token_try L env t = Inr r \<Longrightarrow> r = (False, PDict []) \<or> (\<exists>c. r = (True, c))"
  using validate_cognito_token_cases[of L env "PStr t"]
  unfolding validate_token_try_def
  by (auto split: sum.splits pyval.splits bool.splits if_splits)

lemma validate_token_cases:
  "validate_token L env t = (False, PDict []) \<or> (\<exists>c. validate_token L env t = (True, c))"
  using validate_token_try_cases[of L env t]
  by (auto simp add: validate_token_def split: sum.splits)

text \<open>A token whose header names a key identifier starting with \<^verbatim>\<open>mcp-\<close> is validated as
  a broker token, step by step.\<close>

lemma validate_token_broker:
  assumes "jwt_get_unverified_header L token = Inr headers"
    and "get_default headers ''kid'' PNone = Inr (PStr kid)"
    and "startswith kid ''mcp-''"
  shows "validate_token L env token =
     (case jwt_decode L token
             (HMACKey (environ_get env ''JWT_SECRET_KEY'' ''your-secret-key''))
             \<lparr>algorithms = [''HS256''], verify_exp = True,
              audience = Some ''mcp-server'', issuer = None\<rparr> of
        Inl e \<Rightarrow> (False, PDict [])
      | Inr claims \<Rightarrow>
          (case keys claims of
             Inl e \<Rightarrow> (False, PDict [])
           | Inr claim_names \<Rightarrow>
          (case contains claims ''cognito_token'' of
             Inl e \<Rightarrow> (False, PDict [])
           | Inr False \<Rightarrow> (True, claims)
           | Inr True \<Rightarrow>
               (case getitem claims ''cognito_token'' of
                  Inl e \<Rightarrow> (False, PDict [])
                | Inr ct \<Rightarrow> if fst (validate_cognito_token L env ct) then (True, claims)
                            else (False, PDict [])))))"
proof -
  have k: "truthy (PStr kid)"
    using assms(3) by (auto simp: startswith_def)
  show ?thesis
    using assms k
    by (simp add: validate_token_def validate_token_try_def
        split: sum.split bool.split)
qed

lemma getitem_Inr_dict:
  "getitem c k = Inr v \<Longrightarrow> \<exists>kvs. c = PDict kvs \<and> map_of kvs k = Some v"
  by (cases c) (auto split: option.splits)

lemmas scripted_defs =
  scripted_lib_def scripted_env_def scripted_header_def scripted_decode_def
  scripted_urlencode_def header_of_def decode_def cognito_issuer_def environ_get_def

lemma scripted_upstream:
  "validate_cognito_token scripted_lib scripted_env (PStr ''upstream.jwt'') =
     (True, PDict [(''token_use'', PStr ''access''), (''client_id'', PStr ''upstream-client'')])"
  by (simp add: validate_cognito_token_def validate_cognito_token_try_def scripted_defs)

lemma scripted_forged:
  "validate_cognito_token scripted_lib scripted_env (PStr ''forged.jwt'') = (False, PDict [])"
  by (simp add: validate_cognito_token_def validate_cognito_token_try_def scripted_defs)

text \<open>
  Claim C4. Let the header of a token name a key identifier starting with \<^verbatim>\<open>mcp-\<close> (a
  broker-issued token). If \<^verbatim>\<open>validate_token\<close> accepts int_trunc_1002 with claims that embed a
  \<^verbatim>\<open>cognito_token\<close>, then \<^verbatim>\<open>jwt.decode\<close> of the token with the broker's secret,
  algorithm HS256, audience \<^verbatim>\<open>mcp-server\<close> and expiry verification returned these claims,
  and \<^verbatim>\<open>validate_cognito_token\<close> accepted the embedded token: a key of the provider's
  JWKS has the token's \<^verbatim>\<open>kid\<close>, \<^verbatim>\<open>jwt.decode\<close> with that key, algorithm RS256, expiry
  verification and the provider's issuer succeeded, \<^verbatim>\<open>token_use\<close> is \<^verbatim>\<open>access\<close> and the
  \<^verbatim>\<open>client_id\<close> claim equals \<^verbatim>\<open>COGNITO_CLIENT_ID\<close>. If the broker's \<^verbatim>\<open>jwt.decode\<close>
  raises, or the embedded token is not accepted, the result is \<^verbatim>\<open>(False, {})\<close>.
\<close>

theorem bound_token_needs_both_validations:
  assumes hdr: "jwt_get_unverified_header L token = Inr headers"
    and kid: "get_default headers ''kid'' PNone = Inr (PStr kid)"
    and mcp: "startswith kid ''mcp-''"
  shows
   "(validate_token L env token = (True, claims) \<and> contains claims ''cognito_token'' = Inr True
       \<longrightarrow> jwt_decode L token
             (HMACKey (environ_get env ''JWT_SECRET_KEY'' ''your-secret-key''))
             \<lparr>algorithms = [''HS256''], verify_exp = True,
              audience = Some ''mcp-server'', issuer = None\<rparr> = Inr claims
         \<and> (\<exists>ct c jwks hdrs k key_set key_list key public_key.
               getitem claims ''cognito_token'' = Inr ct
             \<and> validate_cognito_token L env ct = (True, c)
             \<and> httpx_get_json L (cognito_issuer env @ ''/.well-known/jwks.json'') = Inr jwks
             \<and> header_of L ct = Inr hdrs
             \<and> getitem hdrs ''kid'' = Inr k
             \<and> getitem jwks ''keys'' = Inr key_set
             \<and> iterate key_set = Inr key_list
             \<and> find_key key_list k = Inr key \<and> truthy key
             \<and> from_jwk L key = Inr public_key
             \<and> decode L ct public_key
                  \<lparr>algorithms = [''RS256''], verify_exp = True, audience = None,
                   issuer = Some (cognito_issuer env)\<rparr> = Inr c
             \<and> get_default c ''token_use'' PNone = Inr (PStr ''access'')
             \<and> get_default c ''client_id'' PNone = Inr (param (env ''COGNITO_CLIENT_ID''))))
    \<and> (\<forall>e. jwt_decode L token
             (HMACKey (environ_get env ''JWT_SECRET_KEY'' ''your-secret-key''))
             \<lparr>algorithms = [''HS256''], verify_exp = True,
              audience = Some ''mcp-server'', issuer = None\<rparr> = Inl e
          \<longrightarrow> validate_token L env token = (False, PDict []))
    \<and> (\<forall>ct. jwt_decode L token
             (HMACKey (environ_get env ''JWT_SECRET_KEY'' ''your-secret-key''))
             \<lparr>algorithms = [''HS256''], verify_exp = True,
              audience = Some ''mcp-server'', issuer = None\<rparr> = Inr claims
           \<and> getitem claims ''cognito_token'' = Inr ct
           \<and> \<not> fst (validate_cognito_token L env ct)
          \<longrightarrow> validate_token L env token = (False, PDict []))"
proof (intro conjI impI allI)
  note broker = validate_token_broker [OF hdr kid mcp, of env]
  {
    assume a: "validate_token L env token = (True, claims) \<and> contains claims ''cognito_token'' = Inr True"
    from a broker
    show dec: "jwt_decode L token
             (HMACKey (environ_get env ''JWT_SECRET_KEY'' ''your-secret-key''))
             \<lparr>algorithms = [''HS256''], verify_exp = True,
              audience = Some ''mcp-server'', issuer = None\<rparr> = Inr claims"
      by (auto split: sum.splits bool.splits if_splits)
    from a broker dec obtain ct where ct: "getitem claims ''cognito_token'' = Inr ct"
      and ok: "fst (validate_cognito_token L env ct)"
      by (auto split: sum.splits bool.splits if_splits)
    from ok validate_cognito_token_cases [of L env ct]
    obtain c where c: "validate_cognito_token L env ct = (True, c)"
      by auto
    from validate_cognito_token_TrueD [OF c] ct c
    show "\<exists>ct c jwks hdrs k key_set key_list key public_key.
               getitem claims ''cognito_token'' = Inr ct
             \<and> validate_cognito_token L env ct = (True, c)
             \<and> httpx_get_json L (cognito_issuer env @ ''/.well-known/jwks.json'') = Inr jwks
             \<and> header_of L ct = Inr hdrs
             \<and> getitem hdrs ''kid'' = Inr k
             \<and> getitem jwks ''keys'' = Inr key_set
             \<and> iterate key_set = Inr key_list
             \<and> find_key key_list k = Inr key \<and> truthy key
             \<and> from_jwk L key = Inr public_key
             \<and> decode L ct public_key
                  \<lparr>algorithms = [''RS256''], verify_exp = True, audience = None,
                   issuer = Some (cognito_issuer env)\<rparr> = Inr c
             \<and> get_default c ''token_use'' PNone = Inr (PStr ''access'')
             \<and> get_default c ''client_id'' PNone = Inr (param (env ''COGNITO_CLIENT_ID''))"
      by blast
  }
  {
    fix e
    assume "jwt_decode L token
             (HMACKey (environ_get env ''JWT_SECRET_KEY'' ''your-secret-key''))
             \<lparr>algorithms = [''HS256''], verify_exp = True,
              audience = Some ''mcp-server'', issuer = None\<rparr> = Inl e"
    with broker show "validate_token L env token = (False, PDict [])"
      by simp
  }
  {
    fix ct
    assume a: "jwt_decode L token
             (HMACKey (environ_get env ''JWT_SECRET_KEY'' ''your-secret-key''))
             \<lparr>algorithms = [''HS256''], verify_exp = True,
              audience = Some ''mcp-server'', issuer = None\<rparr> = Inr claims
           \<and> getitem claims ''cognito_token'' = Inr ct
           \<and> \<not> fst (validate_cognito_token L env ct)"
    then obtain kvs where "claims = PDict kvs" "map_of kvs ''cognito_token'' = Some ct"
      by (auto dest: getitem_Inr_dict)
    with a broker show "validate_token L env token = (False, PDict [])"
      by simp
  }
qed

theorem bound_token_needs_both_validations_witness:
  "jwt_get_unverified_header scripted_lib ''broker.jwt'' = Inr (PDict [(''kid'', PStr ''mcp-1'')])
   \<and> get_default (PDict [(''kid'', PStr ''mcp-1'')]) ''kid'' PNone = Inr (PStr ''mcp-1'')
   \<and> startswith ''mcp-1'' ''mcp-''
   \<and> validate_token scripted_lib scripted_env ''broker.jwt'' =
        (True, PDict [(''sub'', PStr ''client-1''), (''cognito_token'', PStr ''upstream.jwt'')])
   \<and> jwt_decode scripted_lib ''broker.jwt'' (HMACKey ''your-secret-key'')
        \<lparr>algorithms = [''HS256''], verify_exp = True, audience = Some ''mcp-server'',
         issuer = None\<rparr> =
        Inr (PDict [(''sub'', PStr ''client-1''), (''cognito_token'', PStr ''upstream.jwt'')])
   \<and> fst (validate_cognito_token scripted_lib scripted_env (PStr ''upstream.jwt''))
   \<and> jwt_get_unverified_header scripted_lib ''stale.jwt'' = Inr (PDict [(''kid'', PStr ''mcp-1'')])
   \<and> \<not> fst (validate_cognito_token scripted_lib scripted_env (PStr ''forged.jwt''))
   \<and> validate_token scripted_lib scripted_env ''stale.jwt'' = (False, PDict [])
   \<and> validate_token scripted_lib scripted_env ''expired.jwt'' = (False, PDict [])"
proof -
  have h1: "jwt_get_unverified_header scripted_lib ''broker.jwt'' = Inr (PDict [(''kid'', PStr ''mcp-1'')])"
    and h1': "jwt_get_unverified_header scripted_lib ''stale.jwt'' = Inr (PDict [(''kid'', PStr ''mcp-1'')])"
    and h1'': "jwt_get_unverified_header scripted_lib ''expired.jwt'' = Inr (PDict [(''kid'', PStr ''mcp-1'')])"
    by (simp_all add: scripted_defs)
  have h2: "get_default (PDict [(''kid'', PStr ''mcp-1'')]) ''kid'' PNone = Inr (PStr ''mcp-1'')"
    by simp
  have h3: "startswith ''mcp-1'' ''mcp-''"
    by (simp add: startswith_def)
  have d1: "jwt_decode scripted_lib ''broker.jwt'' (HMACKey (environ_get scripted_env ''JWT_SECRET_KEY'' ''your-secret-key''))
        \<lparr>algorithms = [''HS256''], verify_exp = True, audience = Some ''mcp-server'',
         issuer = None\<rparr> =
        Inr (PDict [(''sub'', PStr ''client-1''), (''cognito_token'', PStr ''upstream.jwt'')])"
    by (simp add: scripted_defs)
  have v: "validate_token scripted_lib scripted_env ''broker.jwt'' =
        (True, PDict [(''sub'', PStr ''client-1''), (''cognito_token'', PStr ''upstream.jwt'')])"
    using d1 by (simp add: validate_token_broker [OF h1 h2 h3] scripted_upstream)
  have d2: "jwt_decode scripted_lib ''stale.jwt'' (HMACKey (environ_get scripted_env ''JWT_SECRET_KEY'' ''your-secret-key''))
        \<lparr>algorithms = [''HS256''], verify_exp = True, audience = Some ''mcp-server'',
         issuer = None\<rparr> =
        Inr (PDict [(''sub'', PStr ''client-1''), (''cognito_token'', PStr ''forged.jwt'')])"
    and d3: "jwt_decode scripted_lib ''expired.jwt'' (HMACKey (environ_get scripted_env ''JWT_SECRET_KEY'' ''your-secret-key''))
        \<lparr>algorithms = [''HS256''], verify_exp = True, audience = Some ''mcp-server'',
         issuer = None\<rparr> = Inl (LibraryError ''ExpiredSignatureError'')"
    and sk: "environ_get scripted_env ''JWT_SECRET_KEY'' ''your-secret-key'' = ''your-secret-key''"
    by (simp_all add: scripted_defs)
  note t1 = bound_token_needs_both_validations [OF h1 h2 h3, of scripted_env
       "PDict [(''sub'', PStr ''client-1''), (''cognito_token'', PStr ''upstream.jwt'')]"]
  note t2 = bound_token_needs_both_validations [OF h1' h2 h3, of scripted_env
       "PDict [(''sub'', PStr ''client-1''), (''cognito_token'', PStr ''forged.jwt'')]"]
  note t3 = bound_token_needs_both_validations [OF h1'' h2 h3, of scripted_env PNone]
  have a: "jwt_decode scripted_lib ''broker.jwt'' (HMACKey ''your-secret-key'')
        \<lparr>algorithms = [''HS256''], verify_exp = True, audience = Some ''mcp-server'',
         issuer = None\<rparr> =
        Inr (PDict [(''sub'', PStr ''client-1''), (''cognito_token'', PStr ''upstream.jwt'')])"
    and a': "fst (validate_cognito_token scripted_lib scripted_env (PStr ''upstream.jwt''))"
    using t1 v sk by auto
  have b: "validate_token scripted_lib scripted_env ''stale.jwt'' = (False, PDict [])"
    using t2 d2 scripted_forged by simp
  have c: "validate_token scripted_lib scripted_env ''expired.jwt'' = (False, PDict [])"
    using t3 d3 by simp
  show ?thesis
    using h1 h2 h3 v a a' h1' b c scripted_forged by simp
qed

lemmas validate_defs =
  validate_token_def validate_token_try_def validate_cognito_token_def
  validate_cognito_token_try_def startswith_def

text \<open>
  Claim C7. Whatever the token, the library's answers and the environment, a validation
  that does not succeed returns exactly \<^verbatim>\<open>(False, {})\<close>, from \<^verbatim>\<open>validate_token\<close> and
  from \<^verbatim>\<open>validate_cognito_token\<close>: an exception raised at any step (a parse error, a
  signature, expiry, issuer or audience failure inside \<^verbatim>\<open>jwt.decode\<close>, a missing key)
  and the explicit rejections (no JWKS key with the token's \<^verbatim>\<open>kid\<close>, \<^verbatim>\<open>token_use\<close> or
  \<^verbatim>\<open>client_id\<close> mismatch) give the same value, so any two failed validations return
  equal results.
\<close>

theorem validation_failures_are_uniform:
  "(\<not> fst (validate_token L env token) \<longrightarrow> validate_token L env token = (False, PDict []))
   \<and> (\<not> fst (validate_cognito_token L env t) \<longrightarrow>
        validate_cognito_token L env t = (False, PDict []))
   \<and> (\<forall>e. validate_token_try L env token = Inl e \<longrightarrow>
        validate_token L env token = (False, PDict []))
   \<and> (\<forall>e. validate_cognito_token_try L env t = Inl e \<longrightarrow>
        validate_cognito_token L env t = (False, PDict []))
   \<and> (\<not> fst (validate_token L env token) \<and> \<not> fst (validate_token L' env' token') \<longrightarrow>
        validate_token L env token = validate_token L' env' token')"
  using validate_token_cases [of L env token] validate_token_cases [of L' env' token']
    validate_cognito_token_cases [of L env t]
  by (auto simp: validate_token_def validate_cognito_token_def)

theorem validation_failures_are_uniform_witness:
  "validate_token scripted_lib scripted_env ''garbage'' = (False, PDict [])
   \<and> validate_token scripted_lib scripted_env ''unknown-kid.jwt'' = (False, PDict [])
   \<and> validate_token scripted_lib scripted_env ''forged.jwt'' = (False, PDict [])
   \<and> validate_token scripted_lib scripted_env ''expired.jwt'' = (False, PDict [])
   \<and> validate_token scripted_lib scripted_env ''id-token.jwt'' = (False, PDict [])
   \<and> validate_token scripted_lib scripted_env ''other-client.jwt'' = (False, PDict [])
   \<and> validate_token scripted_lib scripted_env ''garbage''
        = validate_token scripted_lib Map.empty ''expired.jwt''
   \<and> jwt_get_unverified_header scripted_lib ''garbage'' = Inl (LibraryError ''DecodeError'')
   \<and> fst (validate_token scripted_lib scripted_env ''upstream.jwt'')"
proof -
  have e1: "\<not> fst (validate_token scripted_lib scripted_env ''garbage'')"
    and e2: "\<not> fst (validate_token scripted_lib scripted_env ''unknown-kid.jwt'')"
    and e3: "\<not> fst (validate_token scripted_lib scripted_env ''forged.jwt'')"
    and e4: "\<not> fst (validate_token scripted_lib scripted_env ''expired.jwt'')"
    and e5: "\<not> fst (validate_token scripted_lib scripted_env ''id-token.jwt'')"
    and e6: "\<not> fst (validate_token scripted_lib scripted_env ''other-client.jwt'')"
    and e7: "\<not> fst (validate_token scripted_lib Map.empty ''expired.jwt'')"
    and p: "jwt_get_unverified_header scripted_lib ''garbage'' = Inl (LibraryError ''DecodeError'')"
    and ok: "fst (validate_token scripted_lib scripted_env ''upstream.jwt'')"
    by (simp_all add: validate_defs scripted_defs)
  note u = validation_failures_are_uniform
  have r1: "validate_token scripted_lib scripted_env ''garbage'' = (False, PDict [])"
    using u [of scripted_lib scripted_env "''garbage''"] e1 by blast
  have r2: "validate_token scripted_lib scripted_env ''unknown-kid.jwt'' = (False, PDict [])"
    using u [of scripted_lib scripted_env "''unknown-kid.jwt''"] e2 by blast
  have r3: "validate_token scripted_lib scripted_env ''forged.jwt'' = (False, PDict [])"
    using u [of scripted_lib scripted_env "''forged.jwt''"] e3 by blast
  have r4: "validate_token scripted_lib scripted_env ''expired.jwt'' = (False, PDict [])"
    using u [of scripted_lib scripted_env "''expired.jwt''"] e4 by blast
  have r5: "validate_token scripted_lib scripted_env ''id-token.jwt'' = (False, PDict [])"
    using u [of scripted_lib scripted_env "''id-token.jwt''"] e5 by blast
  have r6: "validate_token scripted_lib scripted_env ''other-client.jwt'' = (False, PDict [])"
    using u [of scripted_lib scripted_env "''other-client.jwt''"] e6 by blast
  have r7: "validate_token scripted_lib scripted_env ''garbage''
        = validate_token scripted_lib Map.empty ''expired.jwt''"
    using u [of scripted_lib scripted_env "''garbage''" PNone scripted_lib Map.empty "''expired.jwt''"]
      e1 e7 by blast
  show ?thesis
    using r1 r2 r3 r4 r5 r6 r7 p ok by blast
qed

section \<open>Properties of the authorization code grant\<close>

lemma get_token_mapping_deleted:
  "get_token_mapping now (delete_token_mapping s code) code = (PNone, delete_token_mapping s code)"
proof (cases s)
  case (Local l)
  then show ?thesis by (simp add: Local_get_token_mapping_deleted)
next
  case (Dynamo d)
  then show ?thesis
    by (simp add: Dynamo_get_token_mapping_def Dynamo_delete_token_mapping_def delete_item_def
        get_item_data_def decimals_or_None_def)
qed

lemma handle_well_formed:
  assumes "c \<noteq> []" "cid \<noteq> []" "r \<noteq> []"
    and "get_token_mapping (int_trunc time) store c = (tm, store1)"
  shows "handle_authorization_code_grant L env0 time jti nrt store (Some c) (Some cid) (Some r) cv =
     (if \<not> truthy tm
      then (Inr (error_response ''invalid_grant'' ''Invalid authorization code'' 400), store1)
      else case getitem tm ''client_id'' of
         Inl e \<Rightarrow> (Inl e, store1)
       | Inr issued_to \<Rightarrow>
           if issued_to \<noteq> PStr cid
           then (Inr (error_response ''invalid_grant''
                        ''Authorization code was issued to another client'' 400), store1)
           else (case pkce_check L tm cv of
                   Inl e \<Rightarrow> (Inl e, store1)
                 | Inr (Some resp) \<Rightarrow> (Inr resp, store1)
                 | Inr None \<Rightarrow>
                     issue_tokens L (get_ssm_parameter L env0) (int_trunc time) jti nrt store1
                       c cid tm))"
  using assms
  by (simp add: handle_authorization_code_grant_def Let_def split: sum.split option.split)

lemma handle_malformed:
  assumes "\<not> truthy (param code) \<or> \<not> truthy (param client_id) \<or> \<not> truthy (param redirect_uri)"
  shows "handle_authorization_code_grant L env0 time jti nrt store code client_id redirect_uri cv =
     (Inr (error_response ''invalid_request'' ''Missing required parameters'' 400), store)"
  using assms by (auto simp add: handle_authorization_code_grant_def Let_def)

lemma truthy_param: "truthy (param p) \<longleftrightarrow> (\<exists>s. p = Some s \<and> s \<noteq> [])"
  by (cases p) auto


lemma pkce_check_Some:
  "pkce_check L tm cv = Inr (Some resp) \<Longrightarrow> \<exists>err descr. resp = error_response err descr 400"
  by (auto simp add: pkce_check_def Let_def split: sum.splits bool.splits if_splits)

lemma issue_tokens_Inr:
  assumes "issue_tokens L env now jti nrt store code cid tm = (Inr resp, st)"
  shows "(\<exists>body. resp = JSONResponse body 200) \<and> (\<exists>s. st = delete_token_mapping s code)"
  using assms
  by (auto simp add: issue_tokens_def Let_def split: sum.splits bool.splits if_splits)

lemma handle_success:
  assumes ok: "handle_authorization_code_grant L env0 time jti nrt store code client_id
                 redirect_uri cv = (Inr (JSONResponse body 200), st)"
  shows "\<exists>c cid r tm store1.
           code = Some c \<and> c \<noteq> [] \<and> client_id = Some cid \<and> cid \<noteq> []
         \<and> redirect_uri = Some r \<and> r \<noteq> []
         \<and> get_token_mapping (int_trunc time) store c = (tm, store1) \<and> truthy tm
         \<and> getitem tm ''client_id'' = Inr (PStr cid)
         \<and> pkce_check L tm cv = Inr None
         \<and> issue_tokens L (get_ssm_parameter L env0) (int_trunc time) jti nrt store1 c cid tm
             = (Inr (JSONResponse body 200), st)"
proof -
  have wf: "truthy (param code)" "truthy (param client_id)" "truthy (param redirect_uri)"
    using ok handle_malformed [of code client_id redirect_uri L env0 time jti nrt store cv]
    by (auto simp: error_response_def)
  then obtain c cid r where p: "code = Some c" "c \<noteq> []" "client_id = Some cid" "cid \<noteq> []"
      "redirect_uri = Some r" "r \<noteq> []"
    by (auto simp: truthy_param)
  obtain tm store1 where g: "get_token_mapping (int_trunc time) store c = (tm, store1)"
    by (cases "get_token_mapping (int_trunc time) store c") auto
  note h = handle_well_formed [OF p(2) p(4) p(6) g, of L env0 jti nrt cv]
  have t: "truthy tm"
    using ok h p by (auto simp: error_response_def split: if_splits)
  from ok h p t obtain issued_to where i: "getitem tm ''client_id'' = Inr issued_to"
    by (auto split: sum.splits)
  have m: "issued_to = PStr cid"
    using ok h p t i by (auto simp: error_response_def split: if_splits)
  have k: "pkce_check L tm cv = Inr None"
    using ok h p t i m
    by (auto simp: error_response_def split: sum.splits option.splits dest!: pkce_check_Some)
  have "issue_tokens L (get_ssm_parameter L env0) (int_trunc time) jti nrt store1 c cid tm
             = (Inr (JSONResponse body 200), st)"
    using ok h p t i m k by simp
  with p g t i m k show ?thesis by blast
qed

subsection \<open>Evaluation on the scripted environment\<close>

lemma ch_ab: "rstrip_eq (urlsafe_b64encode [97, 98]) = ''YWI''"
  by (simp add: rstrip_eq_def urlsafe_b64encode_def urlsafe_alphabet_def)

lemma enc_ab: "encode_ascii ''ab'' = Inr (map of_char ''ab'')"
  by (simp add: encode_ascii_def)

lemma int_trunc_1002: "int_trunc 1002 = 1002"
  by (simp add: int_trunc_def)

lemmas handler_defs =
  handle_authorization_code_grant_def pkce_check_def issue_tokens_def get_ssm_parameter_def
  base_url_def error_response_def Let_def
  Local_store_token_mapping_def Local_get_token_mapping_def Local_delete_token_mapping_def
  Local_store_refresh_token_def Local_init_def expired_def
  scripted_store_def scripted_mapping_def

lemma scripted_redemption: "fst (handle_authorization_code_grant scripted_lib scripted_env 1002 ''jti-1'' ''refresh-1''
   (scripted_store (scripted_mapping (PStr ''YWI'') (PStr ''S256'')))
   (Some ''code-1'') (Some ''client-1'') (Some ''https://client.example/cb'') (Some ''ab''))
  = Inr (JSONResponse (PDict [(''access_token'', PStr ''broker.jwt''),
          (''token_type'', PStr ''Bearer''), (''expires_in'', PInt 3600),
          (''scope'', PStr ''openid''), (''refresh_token'', PStr ''refresh-1'')]) 200)"
  by (simp add: handler_defs scripted_defs ch_ab enc_ab int_trunc_1002)



lemma scripted_lookup:
  "get_token_mapping (int_trunc 1002) (scripted_store (scripted_mapping ch m)) ''code-1''
     = (scripted_mapping ch m, scripted_store (scripted_mapping ch m))"
  by (simp add: int_trunc_1002 scripted_store_def Local_store_token_mapping_def Local_get_token_mapping_def
      expired_def)

lemma scripted_mapping_facts:
  "truthy (scripted_mapping ch m)"
  "contains (scripted_mapping ch m) ''code_challenge'' = Inr True"
  "getitem (scripted_mapping ch m) ''code_challenge'' = Inr ch"
  "getitem (scripted_mapping ch m) ''code_challenge_method'' = Inr m"
  "getitem (scripted_mapping ch m) ''client_id'' = Inr (PStr ''client-1'')"
  by (simp_all add: scripted_mapping_def)

subsection \<open>The claims\<close>

text \<open>
  Claim C3. Take a request with \<^verbatim>\<open>code\<close>, \<^verbatim>\<open>client_id\<close> and \<^verbatim>\<open>redirect_uri\<close> present
  whose code resolves to a stored mapping. If the mapping's \<^verbatim>\<open>client_id\<close> differs from
  the request's, the handler returns the 400 response \<^verbatim>\<open>invalid_grant\<close> (``Authorization
  code was issued to another client''), whatever the code verifier, and leaves the store as
  the lookup left it: no token is issued, no refresh token is stored and the mapping is not
  consumed.
\<close>

theorem code_issued_to_another_client:
  assumes "c \<noteq> []" "cid \<noteq> []" "r \<noteq> []"
    and "get_token_mapping (int_trunc time) store c = (tm, store1)"
    and "truthy tm"
    and "getitem tm ''client_id'' = Inr issued_to"
    and "issued_to \<noteq> PStr cid"
  shows "handle_authorization_code_grant L env0 time jti nrt store (Some c) (Some cid) (Some r) cv =
           (Inr (JSONResponse (PDict [(''error'', PStr ''invalid_grant''),
                   (''error_description'',
                    PStr ''Authorization code was issued to another client'')]) 400),
            store1)"
  using assms
  by (simp add: handle_well_formed [OF assms(1-4)] error_response_def)

theorem code_issued_to_another_client_witness:
  "''code-1'' \<noteq> [] \<and> ''client-2'' \<noteq> [] \<and> ''https://client.example/cb'' \<noteq> []
   \<and> get_token_mapping (int_trunc 1002)
         (scripted_store (scripted_mapping (PStr ''YWI'') (PStr ''S256''))) ''code-1''
       = (scripted_mapping (PStr ''YWI'') (PStr ''S256''),
          scripted_store (scripted_mapping (PStr ''YWI'') (PStr ''S256'')))
   \<and> truthy (scripted_mapping (PStr ''YWI'') (PStr ''S256''))
   \<and> getitem (scripted_mapping (PStr ''YWI'') (PStr ''S256'')) ''client_id''
       = Inr (PStr ''client-1'')
   \<and> PStr ''client-1'' \<noteq> PStr ''client-2''
   \<and> handle_authorization_code_grant scripted_lib scripted_env 1002 ''jti-1'' ''refresh-1''
         (scripted_store (scripted_mapping (PStr ''YWI'') (PStr ''S256'')))
         (Some ''code-1'') (Some ''client-2'') (Some ''https://client.example/cb'') (Some ''ab'')
       = (Inr (JSONResponse (PDict [(''error'', PStr ''invalid_grant''),
                   (''error_description'',
                    PStr ''Authorization code was issued to another client'')]) 400),
          scripted_store (scripted_mapping (PStr ''YWI'') (PStr ''S256'')))"
proof -
  have ne: "''code-1'' \<noteq> []" "''client-2'' \<noteq> []" "''https://client.example/cb'' \<noteq> []"
    and d: "PStr ''client-1'' \<noteq> PStr ''client-2''"
    by simp_all
  note t = code_issued_to_another_client [OF ne scripted_lookup scripted_mapping_facts(1)
      scripted_mapping_facts(5) d, where L = scripted_lib and ?env0.0 = scripted_env
      and jti = "''jti-1''" and nrt = "''refresh-1''" and cv = "Some ''ab''"]
  show ?thesis
    using ne d t scripted_lookup [of "PStr ''YWI''" "PStr ''S256''"]
      scripted_mapping_facts(1,5) [of "PStr ''YWI''" "PStr ''S256''"]
    by blast
qed

text \<open>
  Claim C2. If a request redeems a code (the handler returns the 200 token response),
  the mapping of that code is gone from the resulting store: a lookup of the code at any
  later time returns \<^verbatim>\<open>None\<close>, and every further authorization code grant request that
  presents the same code (with any client, redirect URI, verifier, library behaviour and
  clock) gets the 400 response \<^verbatim>\<open>invalid_grant\<close> (``Invalid authorization code'') and
  leaves the store unchanged. This holds for both stores.
\<close>

theorem authorization_code_single_use:
  assumes "handle_authorization_code_grant L env0 time jti nrt store code client_id
                 redirect_uri cv = (Inr (JSONResponse body 200), store')"
  shows "get_token_mapping now2 store' (fstr code) = (PNone, store')
       \<and> (truthy (param client_id2) \<and> truthy (param redirect_uri2) \<longrightarrow>
            handle_authorization_code_grant L2 env2 time2 jti2 nrt2 store' code client_id2
                 redirect_uri2 cv2 =
             (Inr (JSONResponse (PDict [(''error'', PStr ''invalid_grant''),
                   (''error_description'', PStr ''Invalid authorization code'')]) 400),
              store'))"
proof -
  from handle_success [OF assms] obtain c cid r tm store1 where
    p: "code = Some c" "c \<noteq> []"
    and i: "issue_tokens L (get_ssm_parameter L env0) (int_trunc time) jti nrt store1 c cid tm
             = (Inr (JSONResponse body 200), store')"
    by blast
  from issue_tokens_Inr [OF i] obtain s where s: "store' = delete_token_mapping s c"
    by blast
  have g: "get_token_mapping t store' c = (PNone, store')" for t
    unfolding s by (rule get_token_mapping_deleted)
  have "handle_authorization_code_grant L2 env2 time2 jti2 nrt2 store' code client_id2
                 redirect_uri2 cv2 =
             (Inr (JSONResponse (PDict [(''error'', PStr ''invalid_grant''),
                   (''error_description'', PStr ''Invalid authorization code'')]) 400),
              store')"
    if "truthy (param client_id2)" "truthy (param redirect_uri2)"
  proof -
    from that obtain cid2 r2 where q: "client_id2 = Some cid2" "cid2 \<noteq> []"
        "redirect_uri2 = Some r2" "r2 \<noteq> []"
      by (auto simp: truthy_param)
    show ?thesis
      unfolding p q
      by (simp add: handle_well_formed [OF p(2) q(2) q(4) g] error_response_def)
  qed
  with g p show ?thesis by simp
qed

theorem authorization_code_single_use_witness:
  "fst (handle_authorization_code_grant scripted_lib scripted_env 1002 ''jti-1'' ''refresh-1''
         (scripted_store (scripted_mapping (PStr ''YWI'') (PStr ''S256'')))
         (Some ''code-1'') (Some ''client-1'') (Some ''https://client.example/cb'') (Some ''ab''))
     = Inr (JSONResponse (PDict [(''access_token'', PStr ''broker.jwt''),
          (''token_type'', PStr ''Bearer''), (''expires_in'', PInt 3600),
          (''scope'', PStr ''openid''), (''refresh_token'', PStr ''refresh-1'')]) 200)
   \<and> fst (get_token_mapping 1003
         (snd (handle_authorization_code_grant scripted_lib scripted_env 1002 ''jti-1'' ''refresh-1''
           (scripted_store (scripted_mapping (PStr ''YWI'') (PStr ''S256'')))
           (Some ''code-1'') (Some ''client-1'') (Some ''https://client.example/cb'') (Some ''ab'')))
         ''code-1'') = PNone
   \<and> fst (handle_authorization_code_grant scripted_lib scripted_env 1003 ''jti-2'' ''refresh-2''
         (snd (handle_authorization_code_grant scripted_lib scripted_env 1002 ''jti-1'' ''refresh-1''
           (scripted_store (scripted_mapping (PStr ''YWI'') (PStr ''S256'')))
           (Some ''code-1'') (Some ''client-1'') (Some ''https://client.example/cb'') (Some ''ab'')))
         (Some ''code-1'') (Some ''client-1'') (Some ''https://client.example/cb'') (Some ''ab''))
     = Inr (JSONResponse (PDict [(''error'', PStr ''invalid_grant''),
                   (''error_description'', PStr ''Invalid authorization code'')]) 400)"
proof -
  let ?first = "handle_authorization_code_grant scripted_lib scripted_env 1002 ''jti-1'' ''refresh-1''
           (scripted_store (scripted_mapping (PStr ''YWI'') (PStr ''S256'')))
           (Some ''code-1'') (Some ''client-1'') (Some ''https://client.example/cb'') (Some ''ab'')"
  have h: "?first = (Inr (JSONResponse (PDict [(''access_token'', PStr ''broker.jwt''),
          (''token_type'', PStr ''Bearer''), (''expires_in'', PInt 3600),
          (''scope'', PStr ''openid''), (''refresh_token'', PStr ''refresh-1'')]) 200), snd ?first)"
    using scripted_redemption by (simp add: prod_eq_iff)
  have p: "truthy (param (Some ''client-1''))" "truthy (param (Some ''https://client.example/cb''))"
    by simp_all
  note t = authorization_code_single_use [OF h, where ?now2.0 = 1003
      and ?client_id2.0 = "Some ''client-1''"
      and ?redirect_uri2.0 = "Some ''https://client.example/cb''" and ?L2.0 = scripted_lib
      and ?env2.0 = scripted_env and ?time2.0 = 1003 and ?jti2.0 = "''jti-2''"
      and ?nrt2.0 = "''refresh-2''" and ?cv2.0 = "Some ''ab''"]
  show ?thesis
    using t p scripted_redemption by simp
qed



end
